theory Spec2Isabelle
  imports Complex_Main
begin

section \<open>Data model (types.ts)\<close>

text \<open>
  JavaScript numbers are modelled as \<^typ>\<open>real\<close>: IEEE rounding, NaN and the
  rounding of stores into a Float32Array are not part of the model. Counts and array
  indices are \<^typ>\<open>nat\<close>.
\<close>

datatype AppMode = SCATTER | FORM

text \<open>
  A JavaScript string is a sequence of UTF-16 code units, each given by its number.
  \<open>js\<close> writes the string of an ASCII literal.
\<close>

type_synonym jsstring = "nat list"

definition js :: "string \<Rightarrow> jsstring" where
  "js s = map of_char s"

type_synonym rgb = "real \<times> real \<times> real"

text \<open>
  Point3D: \<open>{x, y, z, color?}\<close>. The field selectors carry the prefix \<open>p_\<close>
  (a selector named \<open>x\<close> would capture that variable name everywhere below). The
  coordinate type is a parameter: the generators and the particle engine use
  \<^typ>\<open>real\<close>; the external shape service copies whatever items the parsed
  response array holds.
\<close>

record 'a Point3D =
  p_x :: 'a
  p_y :: 'a
  p_z :: 'a
  p_color :: "rgb option"

record ShapeDefinition =
  sd_id :: jsstring
  sd_name :: jsstring
  sd_points :: "real Point3D list"
  sd_color :: "jsstring option"
  sd_description :: jsstring

section \<open>Procedural generators (utils/math.ts)\<close>

subsection \<open>Randomness and loops\<close>

text \<open>
  \<open>Math.random()\<close> reads an explicit source: the infinite sequence of the values the
  calls will return. A call takes the head and leaves the tail, so the order in which
  the source draws its numbers is the order of the model.
\<close>

type_synonym rng = "nat \<Rightarrow> real"

definition Math_random :: "rng \<Rightarrow> real \<times> rng" where
  "Math_random g = (g 0, \<lambda>n. g (Suc n))"

text \<open>\<open>Math.random()\<close> returns a value in \<open>[0, 1)\<close>.\<close>

definition unit_rng :: "rng \<Rightarrow> bool" where
  "unit_rng g = (\<forall>n. 0 \<le> g n \<and> g n < 1)"

definition randomRange :: "real \<Rightarrow> real \<Rightarrow> rng \<Rightarrow> real \<times> rng" where
  "randomRange lo hi g = (let (u, g1) = Math_random g in (u * (hi - lo) + lo, g1))"

text \<open>
  \<open>for (let i = i0; i < bound; i++) body\<close>, where the body pushes the points it
  returns. The bound is a JavaScript number, hence a real.
\<close>

function for_loop ::
  "nat \<Rightarrow> real \<Rightarrow> (nat \<Rightarrow> rng \<Rightarrow> 'a list \<times> rng) \<Rightarrow> rng \<Rightarrow> 'a list \<times> rng" where
  "for_loop i bound body g =
     (if real i < bound then
        (case body i g of (ps, g1) \<Rightarrow>
           (case for_loop (Suc i) bound body g1 of (qs, g2) \<Rightarrow> (ps @ qs, g2)))
      else ([], g))"
  by pat_completeness auto
termination
  by (relation "measure (\<lambda>(i, bound, _). nat \<lceil>bound\<rceil> - i)") (auto, linarith)

declare for_loop.simps [simp del]

text \<open>\<open>values.forEach(v => body)\<close> over an array literal.\<close>

primrec forEach ::
  "'b list \<Rightarrow> ('b \<Rightarrow> rng \<Rightarrow> 'a list \<times> rng) \<Rightarrow> rng \<Rightarrow> 'a list \<times> rng" where
  "forEach [] body g = ([], g)"
| "forEach (v # vs) body g =
     (case body v g of (ps, g1) \<Rightarrow>
        (case forEach vs body g1 of (qs, g2) \<Rightarrow> (ps @ qs, g2)))"

text \<open>
  \<open>Math.atan2\<close> on reals (the signed zeros of IEEE arithmetic have no counterpart).
\<close>

definition atan2 :: "real \<Rightarrow> real \<Rightarrow> real" where
  "atan2 b a =
     (if a > 0 then arctan (b / a)
      else if a < 0 \<and> b \<ge> 0 then arctan (b / a) + pi
      else if a < 0 then arctan (b / a) - pi
      else if b > 0 then pi / 2
      else if b < 0 then - (pi / 2)
      else 0)"

text \<open>A loop body that pushes exactly the one point it computes.\<close>

definition push1 :: "(rng \<Rightarrow> 'a \<times> rng) \<Rightarrow> nat \<Rightarrow> rng \<Rightarrow> 'a list \<times> rng" where
  "push1 f i g = (case f g of (p, g1) \<Rightarrow> ([p], g1))"

definition mixColor :: "rgb \<Rightarrow> real \<Rightarrow> rng \<Rightarrow> rgb \<times> rng" where
  "mixColor base noise g0 =
     (case base of (b0, b1, b2) \<Rightarrow>
        (let (u1, g1) = Math_random g0;
             (u2, g2) = Math_random g1;
             (u3, g3) = Math_random g2
         in ((min 1 (max 0 (b0 + (u1 - 0.5) * noise)),
              min 1 (max 0 (b1 + (u2 - 0.5) * noise)),
              min 1 (max 0 (b2 + (u3 - 0.5) * noise))), g3)))"

subsection \<open>Tree\<close>

definition treePoint :: "rng \<Rightarrow> real Point3D \<times> rng" where
  "treePoint g0 =
     (let (u1, g1) = Math_random g0;
          height = u1 * 3 - 1.5;
          radius = (1.5 - height) * 0.4;
          (u2, g2) = Math_random g1;
          angle = u2 * pi * 2;
          (u3, g3) = Math_random g2;
          r = sqrt u3 * radius;
          (u4, g4) = Math_random g3;
          color0 = (0.1, 0.6 + u4 * 0.2, 0.2);
          (u5, g5) = Math_random g4;
          (color1, g6) =
            (if u5 < 0.1 \<and> r > radius * 0.8 then
               (let (ornamentType, g') = Math_random g5 in
                  ((if ornamentType < 0.33 then (1, 0.1, 0.1)
                    else if ornamentType < 0.66 then (1, 0.8, 0.1)
                    else (0.2, 0.5, 1)), g'))
             else (color0, g5));
          color2 = (if height > 1.4 then (1, 1, 0.5) else color1)
      in (\<lparr>p_x = cos angle * r, p_y = height, p_z = sin angle * r, p_color = Some color2\<rparr>,
          g6))"

definition generateTreePoints :: "nat \<Rightarrow> rng \<Rightarrow> real Point3D list \<times> rng" where
  "generateTreePoints count g = for_loop 0 (real count) (push1 treePoint) g"

subsection \<open>Sphere (generic helper)\<close>

text \<open>\<open>Math.cbrt\<close> is the real cube root, \<open>Math.acos\<close> the arc cosine.\<close>

definition spherePoint :: "real \<Rightarrow> real \<Rightarrow> rgb \<Rightarrow> rng \<Rightarrow> real Point3D \<times> rng" where
  "spherePoint radius yOffset baseColor g0 =
     (let (u1, g1) = Math_random g0;
          theta = u1 * pi * 2;
          (u2, g2) = Math_random g1;
          phi = arccos (2 * u2 - 1);
          (u3, g3) = Math_random g2;
          r = root 3 u3 * radius;
          (c, g4) = mixColor baseColor 0.1 g3
      in (\<lparr>p_x = r * sin phi * cos theta,
           p_y = r * sin phi * sin theta + yOffset,
           p_z = r * cos phi,
           p_color = Some c\<rparr>, g4))"

definition generateSpherePoints ::
  "nat \<Rightarrow> real \<Rightarrow> real \<Rightarrow> rgb \<Rightarrow> rng \<Rightarrow> real Point3D list \<times> rng" where
  "generateSpherePoints count radius yOffset baseColor g =
     for_loop 0 (real count) (push1 (spherePoint radius yOffset baseColor)) g"

subsection \<open>Present: box and bow\<close>

definition presentBoxPoint :: "real \<Rightarrow> real \<Rightarrow> rng \<Rightarrow> real Point3D \<times> rng" where
  "presentBoxPoint boxSize half g0 =
     (let (u1, g1) = Math_random g0;
          face = \<lfloor>u1 * 6\<rfloor>;
          (u2, g2) = Math_random g1;
          u = (u2 - 0.5) * boxSize;
          (u3, g3) = Math_random g2;
          v = (u3 - 0.5) * boxSize;
          (x0, y0, z0) =
            (if face = 0 then (half, u, v)
             else if face = 1 then (- half, u, v)
             else if face = 2 then (u, half, v)
             else if face = 3 then (u, - half, v)
             else if face = 4 then (u, v, half)
             else (u, v, - half));
          (u4, g4) = Math_random g3;
          x = x0 + (u4 - 0.5) * 0.03;
          (u5, g5) = Math_random g4;
          y = y0 + (u5 - 0.5) * 0.03;
          (u6, g6) = Math_random g5;
          z = z0 + (u6 - 0.5) * 0.03;
          freq = 6.0;
          color0 = (if sin (x * freq) * sin (y * freq) * sin (z * freq) > 0.5
                    then (1, 1, 1) else (0.9, 0.1, 0.1));
          ribbonWidth = 0.25;
          isRibbon1 = (\<bar>x\<bar> < ribbonWidth \<and> (face \<noteq> 0 \<and> face \<noteq> 1));
          isRibbon = (if \<bar>z\<bar> < ribbonWidth \<and> (face \<noteq> 4 \<and> face \<noteq> 5) then True
                      else isRibbon1);
          color1 = (if isRibbon then (1, 0.84, 0) else color0)
      in (\<lparr>p_x = x, p_y = y, p_z = z, p_color = Some color1\<rparr>, g6))"

definition presentBowPoint :: "real \<Rightarrow> rng \<Rightarrow> real Point3D \<times> rng" where
  "presentBowPoint half g0 =
     (let (u1, g1) = Math_random g0;
          t = u1 * pi * 2;
          (u2, g2) = Math_random g1;
          t2 = u2 * pi;
          r = sin (2 * t) * 0.5 * sin t2;
          bx = cos t * r;
          bz = sin t * r;
          (u3, g3) = Math_random g2;
          bY = half + 0.05 + \<bar>r\<bar> * 0.5 + u3 * 0.1
      in (\<lparr>p_x = bx, p_y = bY, p_z = bz, p_color = Some (1, 0.9, 0.2)\<rparr>, g3))"

definition bowCount :: "nat \<Rightarrow> int" where
  "bowCount count = \<lfloor>real count * 0.15\<rfloor>"

definition boxCount :: "nat \<Rightarrow> int" where
  "boxCount count = int count - bowCount count"

text \<open>The two loops of the present, each on its own, and the generator.\<close>

definition presentBoxPoints :: "nat \<Rightarrow> rng \<Rightarrow> real Point3D list \<times> rng" where
  "presentBoxPoints count g =
     for_loop 0 (real_of_int (boxCount count)) (push1 (presentBoxPoint 1.3 (1.3 / 2))) g"

definition presentBowPoints :: "nat \<Rightarrow> rng \<Rightarrow> real Point3D list \<times> rng" where
  "presentBowPoints count g =
     for_loop 0 (real_of_int (bowCount count)) (push1 (presentBowPoint (1.3 / 2))) g"

definition generatePresentPoints :: "nat \<Rightarrow> rng \<Rightarrow> real Point3D list \<times> rng" where
  "generatePresentPoints count g =
     (case presentBoxPoints count g of (box, g1) \<Rightarrow>
        (case presentBowPoints count g1 of (bow, g2) \<Rightarrow> (box @ bow, g2)))"

subsection \<open>Star\<close>

definition starPoint :: "rng \<Rightarrow> real Point3D \<times> rng" where
  "starPoint g0 =
     (let (u1, g1) = Math_random g0;
          u = u1 * pi * 2;
          (u2, g2) = Math_random g1;
          v = u2 * pi;
          r = 1 + 0.6 * sin (5 * u) * sin (5 * v);
          rad = r * 0.8;
          isTip = (r > 1.3);
          color = (if isTip then (1, 0.8, 0) else (1, 1, 0.8))
      in (\<lparr>p_x = rad * sin v * cos u, p_y = rad * sin v * sin u, p_z = rad * cos v * 0.4,
           p_color = Some color\<rparr>, g2))"

definition generateStarPoints :: "nat \<Rightarrow> rng \<Rightarrow> real Point3D list \<times> rng" where
  "generateStarPoints count g = for_loop 0 (real count) (push1 starPoint) g"

subsection \<open>Snowman\<close>

record Feature =
  f_x :: real
  f_y :: real
  f_z :: real
  f_c :: rgb

definition bodyCount :: "nat \<Rightarrow> int" where
  "bodyCount count = \<lfloor>real count * 0.65\<rfloor>"

definition detailsCount :: "nat \<Rightarrow> int" where
  "detailsCount count = int count - bodyCount count"

definition snowBodyPoint :: "rng \<Rightarrow> real Point3D \<times> rng" where
  "snowBodyPoint g0 =
     (let spheres = [(- 1.2, 0.95), (0.2, 0.7), (1.3, 0.5)];
          (u1, g1) = Math_random g0;
          (idx, g2) =
            (if u1 < 0.4 then (0 :: nat, g1)
             else (let (u2, g') = Math_random g1 in ((if u2 < 0.75 then 1 else 2), g')));
          (cy, radius) = spheres ! idx;
          (u3, g3) = Math_random g2;
          u = u3 * pi * 2;
          (u4, g4) = Math_random g3;
          v = u4 * pi;
          (u5, g5) = Math_random g4;
          r = radius * root 3 u5
      in (\<lparr>p_x = r * sin v * cos u, p_y = r * sin v * sin u + cy, p_z = r * cos v,
           p_color = Some (0.95, 0.98, 1)\<rparr>, g5))"

definition snowBodyPoints :: "nat \<Rightarrow> rng \<Rightarrow> real Point3D list \<times> rng" where
  "snowBodyPoints count g =
     for_loop 0 (real_of_int (bodyCount count)) (push1 snowBodyPoint) g"

definition hatFeature :: "rng \<Rightarrow> Feature \<times> rng" where
  "hatFeature g0 =
     (let hatBaseY = 1.65; hatHeight = 0.5; hatRadius = 0.35;
          (u1, g1) = Math_random g0;
          angle = u1 * pi * 2;
          (u2, g2) = Math_random g1;
          h = u2 * hatHeight;
          (u3, g3) = Math_random g2;
          r = sqrt u3 * hatRadius
      in (\<lparr>f_x = cos angle * r, f_y = hatBaseY + h, f_z = sin angle * r,
           f_c = (0.4, 0.4, 0.45)\<rparr>, g3))"

definition eyeExtra :: "real \<Rightarrow> rng \<Rightarrow> Feature \<times> rng" where
  "eyeExtra ex g0 =
     (let (u1, g1) = Math_random g0;
          (u2, g2) = Math_random g1
      in (\<lparr>f_x = ex + (u1 - 0.5) * 0.05, f_y = 1.45 + (u2 - 0.5) * 0.05, f_z = 0.42,
           f_c = (0.1, 0.1, 0.1)\<rparr>, g2))"

definition eyeFeatures :: "real \<Rightarrow> rng \<Rightarrow> Feature list \<times> rng" where
  "eyeFeatures ex g =
     (case for_loop 0 5 (push1 (eyeExtra ex)) g of (extra, g1) \<Rightarrow>
        (\<lparr>f_x = ex, f_y = 1.45, f_z = 0.42, f_c = (0.1, 0.1, 0.1)\<rparr> # extra, g1))"

definition noseFeature :: "nat \<Rightarrow> rng \<Rightarrow> Feature list \<times> rng" where
  "noseFeature k g0 =
     (let t = real k / 40;
          r = (1 - t) * 0.08;
          (u1, g1) = Math_random g0;
          angle = u1 * pi * 2
      in ([\<lparr>f_x = cos angle * r, f_y = 1.35, f_z = 0.45 + t * 0.4, f_c = (1, 0.5, 0)\<rparr>],
          g1))"

definition mouthExtra :: "real \<Rightarrow> real \<Rightarrow> rng \<Rightarrow> Feature \<times> rng" where
  "mouthExtra mx my g0 =
     (let (u1, g1) = Math_random g0;
          (u2, g2) = Math_random g1
      in (\<lparr>f_x = mx + (u1 - 0.5) * 0.02, f_y = my + (u2 - 0.5) * 0.02, f_z = 0.45,
           f_c = (0.1, 0.1, 0.1)\<rparr>, g2))"

definition mouthFeatures :: "nat \<Rightarrow> rng \<Rightarrow> Feature list \<times> rng" where
  "mouthFeatures k g =
     (let angle = pi + (real k / 4) * pi;
          mx = cos angle * 0.15;
          my = 1.25 + sin angle * 0.05
      in (case for_loop 0 4 (push1 (mouthExtra mx my)) g of (extra, g1) \<Rightarrow>
            (\<lparr>f_x = mx, f_y = my, f_z = 0.45, f_c = (0.1, 0.1, 0.1)\<rparr> # extra, g1)))"

definition armFeatures :: "nat \<Rightarrow> rng \<Rightarrow> Feature list \<times> rng" where
  "armFeatures k g0 =
     (let t = real k / 60;
          (u1, g1) = Math_random g0;
          (u2, g2) = Math_random g1;
          (u3, g3) = Math_random g2;
          (u4, g4) = Math_random g3
      in ([\<lparr>f_x = - 0.6 - t * 0.6 + (u1 - 0.5) * 0.05, f_y = 0.4 + t * 0.4,
            f_z = (u2 - 0.5) * 0.05, f_c = (0.55, 0.35, 0.15)\<rparr>,
           \<lparr>f_x = 0.6 + t * 0.6 + (u3 - 0.5) * 0.05, f_y = 0.4 + t * 0.4,
            f_z = (u4 - 0.5) * 0.05, f_c = (0.55, 0.35, 0.15)\<rparr>], g4))"

definition buttonFeature :: "real \<Rightarrow> rng \<Rightarrow> Feature \<times> rng" where
  "buttonFeature bY g0 =
     (let (u1, g1) = Math_random g0
      in (\<lparr>f_x = (u1 - 0.5) * 0.05, f_y = bY + 0.2, f_z = 0.7, f_c = (0.1, 0.1, 0.1)\<rparr>,
          g1))"

text \<open>The feature list, built once: hat, eyes, nose, mouth, arms, buttons.\<close>

definition snowmanFeatures :: "int \<Rightarrow> rng \<Rightarrow> Feature list \<times> rng" where
  "snowmanFeatures details g0 =
     (case for_loop 0 (real_of_int details * 0.4) (push1 hatFeature) g0 of (hat, g1) \<Rightarrow>
      case forEach [- 0.15, 0.15] eyeFeatures g1 of (eyes, g2) \<Rightarrow>
      case for_loop 0 40 noseFeature g2 of (nose, g3) \<Rightarrow>
      case for_loop 0 5 mouthFeatures g3 of (mouth, g4) \<Rightarrow>
      case for_loop 0 60 armFeatures g4 of (arms, g5) \<Rightarrow>
      case forEach [0.3, 0.0, - 0.3] (\<lambda>bY. for_loop 0 10 (push1 (buttonFeature bY))) g5 of
        (buttons, g6) \<Rightarrow>
          (hat @ eyes @ nose @ mouth @ arms @ buttons, g6))"

text \<open>
  \<open>features[i % features.length]\<close>: with an empty list the index is NaN and the read
  is \<open>undefined\<close>, here \<open>None\<close>.
\<close>

definition featureAt :: "Feature list \<Rightarrow> nat \<Rightarrow> Feature option" where
  "featureAt features i =
     (if features = [] then None else Some (features ! (i mod length features)))"

definition detailPoint :: "Feature list \<Rightarrow> nat \<Rightarrow> rng \<Rightarrow> real Point3D list \<times> rng" where
  "detailPoint features i g0 =
     (case featureAt features i of
        None \<Rightarrow> ([], g0)
      | Some f \<Rightarrow>
          (let (u1, g1) = Math_random g0;
               (u2, g2) = Math_random g1;
               (u3, g3) = Math_random g2
           in ([\<lparr>p_x = f_x f + (u1 - 0.5) * 0.02, p_y = f_y f + (u2 - 0.5) * 0.02,
                 p_z = f_z f + (u3 - 0.5) * 0.02, p_color = Some (f_c f)\<rparr>], g3)))"

definition snowDetailPoints ::
  "nat \<Rightarrow> Feature list \<Rightarrow> rng \<Rightarrow> real Point3D list \<times> rng" where
  "snowDetailPoints count features g =
     (let remainingCount = detailsCount count
      in for_loop 0 (real_of_int remainingCount) (detailPoint features) g)"

definition generateSnowmanPoints :: "nat \<Rightarrow> rng \<Rightarrow> real Point3D list \<times> rng" where
  "generateSnowmanPoints count g =
     (case snowBodyPoints count g of (body, g1) \<Rightarrow>
      case snowmanFeatures (detailsCount count) g1 of (features, g2) \<Rightarrow>
      case snowDetailPoints count features g2 of (details, g3) \<Rightarrow>
        (body @ details, g3))"

subsection \<open>Candy cane\<close>

text \<open>
  The geometry and the stripe flag of one point, from its two random draws: \<open>t\<close> and
  the cross-section angle \<open>theta\<close>.
\<close>

definition candyCane :: "real \<Rightarrow> real \<Rightarrow> (real \<times> real \<times> real) \<times> bool" where
  "candyCane t theta =
     (let radius = 0.25 in
        if t < 0.7 then
          (let y = (t / 0.7) * 2.5 - 1.5;
               x = cos theta * radius;
               z = sin theta * radius;
               isStripe = (sin (y * 10 + atan2 z x) > 0)
           in ((x, y, z), isStripe))
        else
          (let curveT = (t - 0.7) / 0.3;
               curveAngle = curveT * pi;
               hookRadius = 0.5;
               cx = - 0.5;
               cy = 1.0;
               tubeX = cos theta * radius;
               tubeZ = sin theta * radius;
               x = cx + (hookRadius + tubeX) * cos curveAngle;
               y = cy + (hookRadius + tubeX) * sin curveAngle;
               z = tubeZ;
               isStripe = (sin (curveAngle * 10 + atan2 z tubeX) > 0)
           in ((x, y, z), isStripe)))"

definition candyCanePoint :: "rng \<Rightarrow> real Point3D \<times> rng" where
  "candyCanePoint g0 =
     (let (t, g1) = Math_random g0;
          (u2, g2) = Math_random g1;
          theta = u2 * pi * 2
      in (case candyCane t theta of ((x, y, z), isStripe) \<Rightarrow>
            (\<lparr>p_x = x, p_y = y, p_z = z,
              p_color = Some (if isStripe then (1, 0.1, 0.1) else (1, 1, 1))\<rparr>, g2)))"

definition generateCandyCanePoints :: "nat \<Rightarrow> rng \<Rightarrow> real Point3D list \<times> rng" where
  "generateCandyCanePoints count g = for_loop 0 (real count) (push1 candyCanePoint) g"

subsection \<open>Wreath\<close>

definition wreathPoint :: "rng \<Rightarrow> real Point3D \<times> rng" where
  "wreathPoint g0 =
     (let R = 1.2; r = 0.4;
          (u1, g1) = Math_random g0;
          u = u1 * pi * 2;
          (u2, g2) = Math_random g1;
          v = u2 * pi * 2;
          (u3, g3) = Math_random g2;
          r_fluff = r + (u3 - 0.5) * 0.2;
          x = (R + r_fluff * cos v) * cos u;
          y = (R + r_fluff * cos v) * sin u;
          z = r_fluff * sin v;
          (u4, g4) = Math_random g3;
          color0 = (0.1, 0.5 + u4 * 0.3, 0.1);
          (u5, g5) = Math_random g4;
          color1 = (if u5 < 0.05 then (1, 0.1, 0.1) else color0)
      in (\<lparr>p_x = x, p_y = y, p_z = z, p_color = Some color1\<rparr>, g5))"

definition generateWreathPoints :: "nat \<Rightarrow> rng \<Rightarrow> real Point3D list \<times> rng" where
  "generateWreathPoints count g = for_loop 0 (real count) (push1 wreathPoint) g"

subsection \<open>Santa hat\<close>

definition santaHatPoint :: "rng \<Rightarrow> real Point3D \<times> rng" where
  "santaHatPoint g0 =
     (let (u1, g1) = Math_random g0;
          h = u1 * 2;
          (u2, g2) = Math_random g1;
          angle = u2 * pi * 2
      in if h < 0.3 then
           (let (u3, g3) = Math_random g2;
                r = 1.0 + (u3 - 0.5) * 0.2
            in (\<lparr>p_x = cos angle * r, p_y = h - 1.0, p_z = sin angle * r,
                 p_color = Some (1, 1, 1)\<rparr>, g3))
         else if h > 1.8 then
           (let (u3, g3) = Math_random g2;
                y = 0.8 + (u3 - 0.5) * 0.3;
                (u4, g4) = Math_random g3;
                x = 0.6 + (u4 - 0.5) * 0.3;
                (u5, g5) = Math_random g4;
                z = (u5 - 0.5) * 0.3
            in (\<lparr>p_x = x, p_y = y, p_z = z, p_color = Some (1, 1, 1)\<rparr>, g5))
         else
           (let bend = ((h - 0.3) / 1.5)\<^sup>2 * 0.5;
                r = (1.0 - (h - 0.3) / 1.7) * 0.9
            in (\<lparr>p_x = cos angle * r + bend, p_y = h - 1.0, p_z = sin angle * r,
                 p_color = Some (0.9, 0.1, 0.1)\<rparr>, g2)))"

definition generateSantaHatPoints :: "nat \<Rightarrow> rng \<Rightarrow> real Point3D list \<times> rng" where
  "generateSantaHatPoints count g = for_loop 0 (real count) (push1 santaHatPoint) g"

section \<open>The particle engine (components/MagicParticles)\<close>

text \<open>
  The four Float32Arrays of the component, each of length \<open>3 * count\<close>, as lists.
  They are four distinct objects allocated by \<open>useMemo\<close>, so a write to one never
  changes another. A typed-array store outside the range is ignored, which is what
  list update does. \<open>pointsRef\<close> is the mounted THREE.Points object, \<open>None\<close>
  before it is mounted.
\<close>

record PointsObj =
  rotation_y :: real
  position_needsUpdate :: bool
  color_needsUpdate :: bool

record Particles =
  positions :: "real list"
  velocities :: "real list"
  targetPositions :: "real list"
  colors :: "real list"
  pointsRef :: "PointsObj option"

text \<open>The \<open>color\<close> prop with its default value \<open>"#ffdd00"\<close>.\<close>

definition colorProp :: "jsstring option \<Rightarrow> jsstring" where
  "colorProp color = (case color of None \<Rightarrow> js ''#ffdd00'' | Some c \<Rightarrow> c)"

text \<open>
  The body of the loop of the shape-change effect: the target coordinates and the
  colour of particle \<open>i\<close>. \<open>defaultColor\<close> is \<open>new THREE.Color(color)\<close>.
\<close>

definition targetEntry ::
  "real Point3D list \<Rightarrow> rgb \<Rightarrow> nat \<Rightarrow> (real \<times> real \<times> real) \<times> rgb" where
  "targetEntry targetPoints defaultColor i =
     (if length targetPoints > 0 then
        (let p = targetPoints ! (i mod length targetPoints) in
           ((p_x p, p_y p, p_z p),
            (case p_color p of Some c \<Rightarrow> c | None \<Rightarrow> defaultColor)))
      else ((0, 0, 0), defaultColor))"

definition writeTarget :: "nat \<Rightarrow> (real \<times> real \<times> real) \<times> rgb \<Rightarrow> Particles \<Rightarrow> Particles" where
  "writeTarget i e st =
     (case e of ((tx, ty, tz), (r, g, b)) \<Rightarrow>
        st\<lparr>targetPositions :=
             (targetPositions st)[i * 3 := tx, i * 3 + 1 := ty, i * 3 + 2 := tz],
           colors := (colors st)[i * 3 := r, i * 3 + 1 := g, i * 3 + 2 := b]\<rparr>)"

function useEffectLoop ::
  "nat \<Rightarrow> nat \<Rightarrow> real Point3D list \<Rightarrow> rgb \<Rightarrow> Particles \<Rightarrow> Particles" where
  "useEffectLoop i count targetPoints defaultColor st =
     (if i < count then
        useEffectLoop (Suc i) count targetPoints defaultColor
          (writeTarget i (targetEntry targetPoints defaultColor i) st)
      else st)"
  by pat_completeness auto
termination
  by (relation "measure (\<lambda>(i, count, _). count - i)") auto

declare useEffectLoop.simps [simp del]

text \<open>
  The effect run on every shape change. \<open>threeColor\<close> stands for the constructor
  \<open>THREE.Color\<close> of the external library (a colour string to its r, g, b).
\<close>

definition useEffect ::
  "(jsstring \<Rightarrow> rgb) \<Rightarrow> nat \<Rightarrow> real Point3D list \<Rightarrow> jsstring option \<Rightarrow> Particles \<Rightarrow> Particles" where
  "useEffect threeColor count targetPoints color st =
     (let st' = useEffectLoop 0 count targetPoints (threeColor (colorProp color)) st in
        (case pointsRef st' of
           None \<Rightarrow> st'
         | Some pr \<Rightarrow> st'\<lparr>pointsRef := Some (pr\<lparr>color_needsUpdate := True\<rparr>)\<rparr>))"

subsection \<open>The per-frame integrator\<close>

definition isScatter :: "AppMode \<Rightarrow> real \<Rightarrow> bool" where
  "isScatter mode motionIntensity = (mode = SCATTER \<or> motionIntensity > 0.25)"

text \<open>
  One particle of the scatter branch: position \<open>(x, y, z)\<close> and velocity
  \<open>(vx, vy, vz)\<close> before, position and velocity after.
\<close>

definition scatterParticle ::
  "real \<Rightarrow> real \<Rightarrow> real \<times> real \<times> real \<Rightarrow> real \<times> real \<times> real \<Rightarrow>
   (real \<times> real \<times> real) \<times> (real \<times> real \<times> real)" where
  "scatterParticle time delta pos vel =
     (case (pos, vel) of ((x, y, z), (vx, vy, vz)) \<Rightarrow>
        (let distXZ = sqrt (x * x + z * z);
             angle = atan2 z x;
             swirlSpeed = 5.0;
             tanX = - sin angle;
             tanZ = cos angle;
             vx1 = vx + tanX * swirlSpeed * delta;
             vz1 = vz + tanZ * swirlSpeed * delta;
             targetRadius = 3.5 + sin (time * 2 + y) * 0.5;
             radialForce = (targetRadius - distXZ) * 2.0;
             vx2 = vx1 + cos angle * radialForce * delta;
             vz2 = vz1 + sin angle * radialForce * delta;
             targetY = sin (time * 1.5 + distXZ) * 1.5;
             vy2 = vy + (targetY - y) * 1.0 * delta;
             vx3 = vx2 * 0.92;
             vy3 = vy2 * 0.92;
             vz3 = vz2 * 0.92
         in ((x + vx3, y + vy3, z + vz3), (vx3, vy3, vz3))))"

text \<open>
  One particle of the form branch. The source fixes \<open>noiseAmp = 0.02\<close>; it is a
  parameter here so that the tick without shimmer can be stated.
\<close>

definition formParticle ::
  "real \<Rightarrow> real \<Rightarrow> real \<Rightarrow> real \<times> real \<times> real \<Rightarrow> real \<times> real \<times> real \<Rightarrow> real \<times> real \<times> real \<Rightarrow>
   (real \<times> real \<times> real) \<times> (real \<times> real \<times> real)" where
  "formParticle noiseAmp time delta target pos vel =
     (case (target, pos, vel) of ((tx, ty, tz), (x, y, z), (vx, vy, vz)) \<Rightarrow>
        (let k = 4.0;
             nx = sin (time * 3 + y) * noiseAmp;
             ny = cos (time * 2 + z) * noiseAmp;
             nz = sin (time * 4 + x) * noiseAmp;
             vx1 = vx + ((tx + nx) - x) * k * delta;
             vy1 = vy + ((ty + ny) - y) * k * delta;
             vz1 = vz + ((tz + nz) - z) * k * delta;
             vx2 = vx1 * 0.85;
             vy2 = vy1 * 0.85;
             vz2 = vz1 * 0.85
         in ((x + vx2, y + vy2, z + vz2), (vx2, vy2, vz2))))"

definition triple :: "real list \<Rightarrow> nat \<Rightarrow> real \<times> real \<times> real" where
  "triple a idx = (a ! idx, a ! (idx + 1), a ! (idx + 2))"

definition setTriple :: "real list \<Rightarrow> nat \<Rightarrow> real \<times> real \<times> real \<Rightarrow> real list" where
  "setTriple a idx v = (case v of (v0, v1, v2) \<Rightarrow> a[idx := v0, idx + 1 := v1, idx + 2 := v2])"

definition particleStep :: "real \<Rightarrow> bool \<Rightarrow> real \<Rightarrow> real \<Rightarrow> nat \<Rightarrow> Particles \<Rightarrow> Particles" where
  "particleStep noiseAmp scatter time delta i st =
     (let idx = i * 3;
          pos = triple (positions st) idx;
          vel = triple (velocities st) idx;
          (pos', vel') =
            (if scatter then scatterParticle time delta pos vel
             else formParticle noiseAmp time delta (triple (targetPositions st) idx) pos vel)
      in st\<lparr>velocities := setTriple (velocities st) idx vel',
             positions := setTriple (positions st) idx pos'\<rparr>)"

function simulationLoop ::
  "nat \<Rightarrow> nat \<Rightarrow> real \<Rightarrow> bool \<Rightarrow> real \<Rightarrow> real \<Rightarrow> Particles \<Rightarrow> Particles" where
  "simulationLoop i count noiseAmp scatter time delta st =
     (if i < count then
        simulationLoop (Suc i) count noiseAmp scatter time delta
          (particleStep noiseAmp scatter time delta i st)
      else st)"
  by pat_completeness auto
termination
  by (relation "measure (\<lambda>(i, count, _). count - i)") auto

declare simulationLoop.simps [simp del]

text \<open>
  The frame callback, with the shimmer amplitude as a parameter; \<open>useFrame\<close> is the
  callback of the source. \<open>time\<close> is \<open>state.clock.elapsedTime\<close>.
\<close>

definition useFrameWith ::
  "real \<Rightarrow> AppMode \<Rightarrow> real \<Rightarrow> nat \<Rightarrow> real \<Rightarrow> real \<Rightarrow> Particles \<Rightarrow> Particles" where
  "useFrameWith noiseAmp mode motionIntensity count time delta st =
     (case pointsRef st of
        None \<Rightarrow> st
      | Some pr \<Rightarrow>
          (let scatter = isScatter mode motionIntensity;
               st' = simulationLoop 0 count noiseAmp scatter time delta st;
               pr' = pr\<lparr>position_needsUpdate := True\<rparr>;
               pr'' = (if \<not> scatter then pr'\<lparr>rotation_y := rotation_y pr' + 0.1 * delta\<rparr>
                       else pr'\<lparr>rotation_y := rotation_y pr' + 0.5 * delta\<rparr>)
           in st'\<lparr>pointsRef := Some pr''\<rparr>))"

definition useFrame ::
  "AppMode \<Rightarrow> real \<Rightarrow> nat \<Rightarrow> real \<Rightarrow> real \<Rightarrow> Particles \<Rightarrow> Particles" where
  "useFrame = useFrameWith 0.02"

subsection \<open>The initial state\<close>

text \<open>
  \<open>useMemo\<close>: the four arrays are allocated with \<open>count * 3\<close> zeros; every particle
  gets a random position in a ball of radius 5, the fallback colour and zero velocity.
  The object is not mounted yet.
\<close>

definition initEntry :: "rng \<Rightarrow> (real \<times> real \<times> real) \<times> rng" where
  "initEntry g0 =
     (let (u1, g1) = Math_random g0;
          r = u1 * 5;
          (u2, g2) = Math_random g1;
          theta = u2 * pi * 2;
          (u3, g3) = Math_random g2;
          phi = arccos (2 * u3 - 1)
      in ((r * sin phi * cos theta, r * sin phi * sin theta, r * cos phi), g3))"

function useMemoLoop :: "nat \<Rightarrow> nat \<Rightarrow> rgb \<Rightarrow> rng \<Rightarrow> Particles \<Rightarrow> Particles \<times> rng" where
  "useMemoLoop i count c g st =
     (if i < count then
        (case initEntry g of (p, g1) \<Rightarrow>
           useMemoLoop (Suc i) count c g1
             (st\<lparr>positions := setTriple (positions st) (i * 3) p,
                 colors := setTriple (colors st) (i * 3) c,
                 velocities := setTriple (velocities st) (i * 3) (0, 0, 0)\<rparr>))
      else (st, g))"
  by pat_completeness auto
termination
  by (relation "measure (\<lambda>(i, count, _). count - i)") auto

declare useMemoLoop.simps [simp del]

definition useMemo :: "(jsstring \<Rightarrow> rgb) \<Rightarrow> nat \<Rightarrow> jsstring option \<Rightarrow> rng \<Rightarrow> Particles \<times> rng" where
  "useMemo threeColor count color g =
     useMemoLoop 0 count (threeColor (colorProp color)) g
       \<lparr>positions = replicate (count * 3) 0, velocities = replicate (count * 3) 0,
        targetPositions = replicate (count * 3) 0, colors = replicate (count * 3) 0,
        pointsRef = None\<rparr>"

section \<open>The external shape service (services/geminiService.ts)\<close>

text \<open>
  A thrown value, the reply of \<open>ai.models.generateContent\<close> (a rejection, or a
  response with its optional \<open>text\<close>), and what \<open>JSON.parse\<close> returns as far as the
  function looks at it: an array of items, or any other value. The client is
  \<open>None\<close> when the API key is missing; otherwise it maps a prompt and a count to
  the reply. \<open>JSON.parse\<close> is a parameter, \<open>None\<close> where it throws.
\<close>

datatype exn = Thrown jsstring

datatype reply = Rejected exn | Replied "jsstring option"

datatype 'a json = JArray "'a list" | JOther

type_synonym client = "jsstring \<Rightarrow> nat \<Rightarrow> reply"

text \<open>\<open>response.text || "[]"\<close>: a missing or empty text is replaced.\<close>

definition textOrDefault :: "jsstring option \<Rightarrow> jsstring" where
  "textOrDefault t = (case t of None \<Rightarrow> js ''[]'' | Some s \<Rightarrow> if s = [] then js ''[]'' else s)"

text \<open>\<open>for (let i = i0; i < rawData.length; i += 3) if (i + 2 < rawData.length) push\<close>.\<close>

function tripletLoop :: "nat \<Rightarrow> 'a list \<Rightarrow> 'a Point3D list" where
  "tripletLoop i rawData =
     (if i < length rawData then
        (if i + 2 < length rawData then
           [\<lparr>p_x = rawData ! i, p_y = rawData ! (i + 1), p_z = rawData ! (i + 2),
             p_color = None\<rparr>]
         else [])
        @ tripletLoop (i + 3) rawData
      else [])"
  by pat_completeness auto
termination
  by (relation "measure (\<lambda>(i, rawData). length rawData - i)") auto

declare tripletLoop.simps [simp del]

text \<open>\<open>points.slice(0, count)\<close> for a count that is a natural number.\<close>

definition slice0 :: "'a list \<Rightarrow> nat \<Rightarrow> 'a list" where
  "slice0 xs count = take count xs"

text \<open>The body of the \<open>try\<close> block: \<open>Inl\<close> is a throw inside it.\<close>

definition tryBody ::
  "client \<Rightarrow> (jsstring \<Rightarrow> 'a json option) \<Rightarrow> jsstring \<Rightarrow> nat \<Rightarrow> exn + 'a Point3D list" where
  "tryBody ai parse prompt count =
     (case ai prompt count of
        Rejected e \<Rightarrow> Inl e
      | Replied t \<Rightarrow>
          (case parse (textOrDefault t) of
             None \<Rightarrow> Inl (Thrown (js ''SyntaxError''))
           | Some JOther \<Rightarrow> Inr []
           | Some (JArray rawData) \<Rightarrow> Inr (slice0 (tripletLoop 0 rawData) count)))"

text \<open>
  The async function: \<open>Inr\<close> is the value its promise resolves to, \<open>Inl\<close> a
  rejection.
\<close>

definition generateGeminiShape ::
  "client option \<Rightarrow> (jsstring \<Rightarrow> 'a json option) \<Rightarrow> jsstring \<Rightarrow> nat \<Rightarrow> exn + 'a Point3D list" where
  "generateGeminiShape ai parse prompt count =
     (case ai of
        None \<Rightarrow> Inr []
      | Some c \<Rightarrow>
          (case tryBody c parse prompt count of
             Inr points \<Rightarrow> Inr points
           | Inl error \<Rightarrow> Inr []))"

section \<open>The shape catalog and the application state (App)\<close>

definition PARTICLE_COUNT :: nat where
  "PARTICLE_COUNT = 6000"

text \<open>
  The module constant \<open>DEFAULT_SHAPES\<close>, evaluated once when the module loads, from
  the random source of that moment.
\<close>

definition DEFAULT_SHAPES :: "rng \<Rightarrow> ShapeDefinition list" where
  "DEFAULT_SHAPES g0 =
     (case generateTreePoints PARTICLE_COUNT g0 of (tree, g1) \<Rightarrow>
      case generatePresentPoints PARTICLE_COUNT g1 of (present, g2) \<Rightarrow>
      case generateWreathPoints PARTICLE_COUNT g2 of (wreath, g3) \<Rightarrow>
      case generateCandyCanePoints PARTICLE_COUNT g3 of (cane, g4) \<Rightarrow>
      case generateSantaHatPoints PARTICLE_COUNT g4 of (santa_hat, g5) \<Rightarrow>
      case generateSnowmanPoints PARTICLE_COUNT g5 of (snowman, g6) \<Rightarrow>
      case generateStarPoints PARTICLE_COUNT g6 of (star, g7) \<Rightarrow>
        [\<lparr>sd_id = js ''tree'', sd_name = js ''Festive Tree'', sd_points = tree, sd_color = None,
          sd_description = js ''Point Up or use buttons to change''\<rparr>,
         \<lparr>sd_id = js ''present'', sd_name = js ''Magic Present'', sd_points = present,
          sd_color = None, sd_description = js ''Open Hand: Scatter | Fist: Form''\<rparr>,
         \<lparr>sd_id = js ''wreath'', sd_name = js ''Holiday Wreath'', sd_points = wreath,
          sd_color = None, sd_description = js ''A circle of joy''\<rparr>,
         \<lparr>sd_id = js ''cane'', sd_name = js ''Candy Cane'', sd_points = cane, sd_color = None,
          sd_description = js ''Sweet winter treats''\<rparr>,
         \<lparr>sd_id = js ''santa_hat'', sd_name = js ''Santa Hat'', sd_points = santa_hat,
          sd_color = None, sd_description = js ''Jolly accessories''\<rparr>,
         \<lparr>sd_id = js ''snowman'', sd_name = js ''Snowman'', sd_points = snowman, sd_color = None,
          sd_description = js ''Do you want to build a snowman?''\<rparr>,
         \<lparr>sd_id = js ''star'', sd_name = js ''North Star'', sd_points = star, sd_color = None,
          sd_description = js ''Guiding light''\<rparr>])"

text \<open>
  The React state of the component that the shape commands and the shape request
  read and write. \<open>null\<close> is \<open>None\<close>.
\<close>

record AppState =
  currentShapeIdx :: int
  customShapePoints :: "real Point3D list option"
  customShapeName :: "jsstring option"
  aiLoading :: bool
  promptInput :: jsstring
  aiStatus :: jsstring

text \<open>
  The remainder operator \<open>%\<close> of JavaScript on integers: the result has the sign of
  the dividend. The divisor is not zero.
\<close>

definition js_rem :: "int \<Rightarrow> int \<Rightarrow> int" where
  "js_rem a b = (if a \<ge> 0 then a mod \<bar>b\<bar> else - ((- a) mod \<bar>b\<bar>))"

text \<open>
  \<open>activeShape\<close>: the custom shape when both its points and its name are truthy
  (an array always is, a string when it is not empty), else the catalog entry at the
  index (\<open>None\<close> is \<open>undefined\<close>, an index outside the catalog).
\<close>

definition hasCustom :: "AppState \<Rightarrow> bool" where
  "hasCustom s =
     (customShapePoints s \<noteq> None \<and> customShapeName s \<noteq> None \<and> customShapeName s \<noteq> Some [])"

definition activeShape :: "ShapeDefinition list \<Rightarrow> AppState \<Rightarrow> ShapeDefinition option" where
  "activeShape shapes s =
     (if hasCustom s then
        Some \<lparr>sd_id = js ''custom'', sd_name = the (customShapeName s),
              sd_points = the (customShapePoints s), sd_color = Some (js ''#00ccff''),
              sd_description = js ''AI Generated Magic''\<rparr>
      else if 0 \<le> currentShapeIdx s \<and> currentShapeIdx s < int (length shapes)
        then Some (shapes ! nat (currentShapeIdx s))
      else None)"

definition handleNextShape :: "ShapeDefinition list \<Rightarrow> AppState \<Rightarrow> AppState" where
  "handleNextShape shapes s =
     s\<lparr>customShapePoints := None, customShapeName := None,
       currentShapeIdx := js_rem (currentShapeIdx s + 1) (int (length shapes))\<rparr>"

definition handlePrevShape :: "ShapeDefinition list \<Rightarrow> AppState \<Rightarrow> AppState" where
  "handlePrevShape shapes s =
     s\<lparr>customShapePoints := None, customShapeName := None,
       currentShapeIdx :=
         js_rem (currentShapeIdx s - 1 + int (length shapes)) (int (length shapes))\<rparr>"

text \<open>
  The override command: the two state writes of the success branch of
  \<open>handleGenerateShape\<close>, name and points together.
\<close>

definition setCustom :: "jsstring \<Rightarrow> real Point3D list \<Rightarrow> AppState \<Rightarrow> AppState" where
  "setCustom name points s = s\<lparr>customShapeName := Some name, customShapePoints := Some points\<rparr>"

text \<open>
  \<open>String.prototype.trim\<close> removes, at both ends, the code units of the WhiteSpace and
  LineTerminator productions of ECMAScript: TAB, LF, VT, FF, CR, SPACE, NO-BREAK SPACE,
  U+1680, U+2000 to U+200A, U+2028, U+2029, U+202F, U+205F, U+3000 and U+FEFF.
\<close>

definition isWhiteSpace :: "nat \<Rightarrow> bool" where
  "isWhiteSpace c =
     (c \<in> set [0x09, 0x0A, 0x0B, 0x0C, 0x0D, 0x20, 0xA0, 0x1680,
               0x2000, 0x2001, 0x2002, 0x2003, 0x2004, 0x2005, 0x2006, 0x2007, 0x2008,
               0x2009, 0x200A, 0x2028, 0x2029, 0x202F, 0x205F, 0x3000, 0xFEFF])"

definition trim :: "jsstring \<Rightarrow> jsstring" where
  "trim s = rev (dropWhile isWhiteSpace (rev (dropWhile isWhiteSpace s)))"

text \<open>
  \<open>handleGenerateShape\<close> in two halves. The first runs up to the \<open>await\<close>. The
  second runs when the promise has settled, on the state of that moment, with the
  prompt the handler captured and the outcome of the request (\<open>Inl\<close> a rejection).
  The timer that clears the status three seconds after a success is a later event
  and is not part of the handler's own effect.
\<close>

definition generateShapeBegin :: "AppState \<Rightarrow> AppState" where
  "generateShapeBegin s = s\<lparr>aiLoading := True, aiStatus := js ''Summoning magic...''\<rparr>"

definition generateShapeSettle ::
  "jsstring \<Rightarrow> exn + real Point3D list \<Rightarrow> AppState \<Rightarrow> AppState" where
  "generateShapeSettle prompt outcome s =
     (let s1 =
        (case outcome of
           Inr points \<Rightarrow>
             if length points > 0
             then (setCustom prompt points s)\<lparr>aiStatus := js ''Magic summoned!''\<rparr>
             else s\<lparr>aiStatus := js ''The spell fizzled.''\<rparr>
         | Inl e \<Rightarrow> s\<lparr>aiStatus := js ''Connection error.''\<rparr>)
      in s1\<lparr>aiLoading := False\<rparr>)"

definition handleGenerateShape ::
  "client option \<Rightarrow> (jsstring \<Rightarrow> real json option) \<Rightarrow> AppState \<Rightarrow> AppState" where
  "handleGenerateShape ai parse s =
     (if trim (promptInput s) = [] then s
      else generateShapeSettle (promptInput s)
             (generateGeminiShape ai parse (promptInput s) PARTICLE_COUNT)
             (generateShapeBegin s))"

text \<open>The initial values of the \<open>useState\<close> hooks.\<close>

definition initialApp :: AppState where
  "initialApp = \<lparr>currentShapeIdx = 0, customShapePoints = None, customShapeName = None,
       aiLoading = False, promptInput = [], aiStatus = []\<rparr>"

text \<open>A state in which a custom shape is active and another prompt has been typed.\<close>

definition bellApp :: AppState where
  "bellApp = initialApp\<lparr>currentShapeIdx := 3, promptInput := js ''Sleigh'',
     customShapeName := Some (js ''Bell''),
     customShapePoints := Some [\<lparr>p_x = 1, p_y = 2, p_z = 3, p_color = None\<rparr>]\<rparr>"

text \<open>A two-particle state in motion, for concrete instances.\<close>

definition demoParticles :: Particles where
  "demoParticles = \<lparr>positions = [1, 2, 3, 4, 5, 6], velocities = [0.1, 0.2, 0.3, 0.4, 0.5, 0.6],
     targetPositions = [0, 0, 0, 0, 0, 0], colors = [1, 1, 1, 1, 1, 1],
     pointsRef = Some \<lparr>rotation_y = 0, position_needsUpdate = False, color_needsUpdate = False\<rparr>\<rparr>"

text \<open>A random source for concrete instances: 1/4, 1/2, 1/8, then 1/2 for ever.\<close>

definition sampleRng :: rng where
  "sampleRng = (\<lambda>n. if n = 0 then 1 / 4 else if n = 2 then 1 / 8 else 1 / 2)"

section \<open>Repeated ticks of one particle\<close>

text \<open>
  The state of one particle in the form regime after \<open>n\<close> frames. The frame callback
  is handed a new elapsed time and a new frame time in every frame: \<open>clock k\<close> and
  \<open>deltas k\<close> are the ones of frame \<open>k\<close>.
\<close>

primrec formTicks ::
  "nat \<Rightarrow> real \<Rightarrow> (nat \<Rightarrow> real) \<Rightarrow> (nat \<Rightarrow> real) \<Rightarrow> real \<times> real \<times> real \<Rightarrow>
   (real \<times> real \<times> real) \<times> (real \<times> real \<times> real) \<Rightarrow>
   (real \<times> real \<times> real) \<times> (real \<times> real \<times> real)" where
  "formTicks 0 noiseAmp clock deltas target pv = pv"
| "formTicks (Suc n) noiseAmp clock deltas target pv =
     (case formTicks n noiseAmp clock deltas target pv of
        (pos, vel) \<Rightarrow> formParticle noiseAmp (clock n) (deltas n) target pos vel)"

text \<open>The Euclidean distance \<open>|position - target|\<close>.\<close>

definition dist3 :: "real \<times> real \<times> real \<Rightarrow> real \<times> real \<times> real \<Rightarrow> real" where
  "dist3 pos target =
     (case (pos, target) of ((x, y, z), (tx, ty, tz)) \<Rightarrow>
        sqrt ((x - tx)\<^sup>2 + (y - ty)\<^sup>2 + (z - tz)\<^sup>2))"

text \<open>
  The rest of this section is not code of the source: it names what the statements
  about repeated ticks need. A particle at \<open>pos\<close> has not passed the target when its
  offset from the target has no component against the offset of the starting point.
\<close>

definition onStartSide ::
  "real \<times> real \<times> real \<Rightarrow> real \<times> real \<times> real \<Rightarrow> real \<times> real \<times> real \<Rightarrow> bool" where
  "onStartSide target start pos =
     (case (target, start, pos) of ((tx, ty, tz), (sx, sy, sz), (x, y, z)) \<Rightarrow>
        0 \<le> (x - tx) * (sx - tx) + (y - ty) * (sy - ty) + (z - tz) * (sz - tz))"

text \<open>
  Started at rest and without shimmer, the particle stays on the line through the
  starting point and the target: after \<open>n\<close> frames its offset from the target is
  \<open>a\<close> times the initial offset and its velocity \<open>b\<close> times the initial offset, for
  the pair \<open>(a, b)\<close> below.
\<close>

primrec formCoeffs :: "nat \<Rightarrow> (nat \<Rightarrow> real) \<Rightarrow> real \<times> real" where
  "formCoeffs 0 deltas = (1, 0)"
| "formCoeffs (Suc n) deltas =
     (case formCoeffs n deltas of
        (a, b) \<Rightarrow> (a + (b - a * 4 * deltas n) * 0.85, (b - a * 4 * deltas n) * 0.85))"

text \<open>
  A quadratic form of the offset from the target and the velocity, which a tick
  multiplies by 0.85.
\<close>

definition energy1 :: "real \<Rightarrow> real \<Rightarrow> real \<Rightarrow> real" where
  "energy1 delta e v = 3.4 * delta * e\<^sup>2 - (3.4 * delta - 0.15) * e * v + 0.85 * v\<^sup>2"

definition energy3 ::
  "real \<Rightarrow> real \<times> real \<times> real \<Rightarrow> (real \<times> real \<times> real) \<times> (real \<times> real \<times> real) \<Rightarrow> real" where
  "energy3 delta target pv =
     (case (target, pv) of ((tx, ty, tz), (x, y, z), (vx, vy, vz)) \<Rightarrow>
        energy1 delta (x - tx) vx + energy1 delta (y - ty) vy + energy1 delta (z - tz) vz)"

section \<open>Mode override\<close>

text \<open>
  The arrays allocated by \<open>useMemo\<close> have three entries per particle, and neither a
  frame nor a shape change alters a length.
\<close>

lemma setTriple_length: "length (setTriple a idx v) = length a"
  by (cases v) (simp add: setTriple_def)

lemma setTriple_triple:
  "i * 3 + 2 < length a \<Longrightarrow>
   triple (setTriple a (i * 3) v) (j * 3) = (if j = i then v else triple a (j * 3))"
  by (cases v) (auto simp: setTriple_def triple_def nth_list_update)


lemma useMemoLoop_lengths:
  "length (positions (fst (useMemoLoop i count c g st))) = length (positions st) \<and>
   length (velocities (fst (useMemoLoop i count c g st))) = length (velocities st) \<and>
   length (targetPositions (fst (useMemoLoop i count c g st))) = length (targetPositions st) \<and>
   length (colors (fst (useMemoLoop i count c g st))) = length (colors st)"
proof (induction i count c g st rule: useMemoLoop.induct)
  case (1 i count c g st)
  show ?case
  proof (cases "i < count")
    case True
    obtain p g1 where e: "initEntry g = (p, g1)" by (cases "initEntry g")
    show ?thesis
      using "1.IH" [OF True e [symmetric]] True
      by (subst (1 2 3 4) useMemoLoop.simps) (simp add: e setTriple_length)
  next
    case False
    then show ?thesis by (subst (1 2 3 4) useMemoLoop.simps) simp
  qed
qed

lemma useMemo_lengths:
  "length (positions (fst (useMemo threeColor count color g))) = 3 * count \<and>
   length (velocities (fst (useMemo threeColor count color g))) = 3 * count \<and>
   length (targetPositions (fst (useMemo threeColor count color g))) = 3 * count \<and>
   length (colors (fst (useMemo threeColor count color g))) = 3 * count"
  by (simp add: useMemo_def useMemoLoop_lengths mult.commute)

text \<open>What one frame does to the particle at index \<open>i\<close>.\<close>

lemma particleStep_frame:
  "targetPositions (particleStep noiseAmp scatter time delta i st) = targetPositions st"
  "colors (particleStep noiseAmp scatter time delta i st) = colors st"
  "pointsRef (particleStep noiseAmp scatter time delta i st) = pointsRef st"
  "length (positions (particleStep noiseAmp scatter time delta i st)) = length (positions st)"
  "length (velocities (particleStep noiseAmp scatter time delta i st)) = length (velocities st)"
  by (simp_all add: particleStep_def Let_def split_def setTriple_length)

lemma particleStep_triple:
  assumes "i * 3 + 2 < length (positions st)" "i * 3 + 2 < length (velocities st)"
  shows "(triple (positions (particleStep noiseAmp scatter time delta i st)) (j * 3),
          triple (velocities (particleStep noiseAmp scatter time delta i st)) (j * 3)) =
           (if j = i then
              (if scatter
               then scatterParticle time delta (triple (positions st) (i * 3))
                      (triple (velocities st) (i * 3))
               else formParticle noiseAmp time delta (triple (targetPositions st) (i * 3))
                      (triple (positions st) (i * 3)) (triple (velocities st) (i * 3)))
            else (triple (positions st) (j * 3), triple (velocities st) (j * 3)))"
  using assms
  by (simp add: particleStep_def Let_def split_def setTriple_triple)

lemma simulationLoop_frame:
  "targetPositions (simulationLoop i count noiseAmp scatter time delta st) = targetPositions st \<and>
   colors (simulationLoop i count noiseAmp scatter time delta st) = colors st \<and>
   pointsRef (simulationLoop i count noiseAmp scatter time delta st) = pointsRef st \<and>
   length (positions (simulationLoop i count noiseAmp scatter time delta st)) = length (positions st) \<and>
   length (velocities (simulationLoop i count noiseAmp scatter time delta st)) = length (velocities st)"
proof (induction i count noiseAmp scatter time delta st rule: simulationLoop.induct)
  case (1 i count noiseAmp scatter time delta st)
  show ?case
  proof (cases "i < count")
    case True
    then show ?thesis
      using "1.IH" by (subst (1 2 3 4 5) simulationLoop.simps) (simp add: particleStep_frame)
  next
    case False
    then show ?thesis by (subst (1 2 3 4 5) simulationLoop.simps) simp
  qed
qed

lemma simulationLoop_triple:
  "length (positions st) = 3 * count \<Longrightarrow> length (velocities st) = 3 * count \<Longrightarrow>
   (triple (positions (simulationLoop i count noiseAmp scatter time delta st)) (j * 3),
    triple (velocities (simulationLoop i count noiseAmp scatter time delta st)) (j * 3)) =
     (if i \<le> j \<and> j < count then
        (if scatter
         then scatterParticle time delta (triple (positions st) (j * 3))
                (triple (velocities st) (j * 3))
         else formParticle noiseAmp time delta (triple (targetPositions st) (j * 3))
                (triple (positions st) (j * 3)) (triple (velocities st) (j * 3)))
      else (triple (positions st) (j * 3), triple (velocities st) (j * 3)))"
proof (induction i count noiseAmp scatter time delta st rule: simulationLoop.induct)
  case (1 i count noiseAmp scatter time delta st)
  show ?case
  proof (cases "i < count")
    case True
    let ?st = "particleStep noiseAmp scatter time delta i st"
    have r: "i * 3 + 2 < length (positions st)" "i * 3 + 2 < length (velocities st)"
      using True "1.prems" by simp_all
    have l: "length (positions ?st) = 3 * count" "length (velocities ?st) = 3 * count"
      using "1.prems" by (simp_all add: particleStep_frame)
    have step: "simulationLoop i count noiseAmp scatter time delta st =
                simulationLoop (Suc i) count noiseAmp scatter time delta ?st"
      using True by (subst simulationLoop.simps) simp
    show ?thesis
    proof (cases "j = i")
      case True
      then show ?thesis
        unfolding step using "1.IH" [OF \<open>i < count\<close> l] \<open>i < count\<close> particleStep_triple [OF r, of noiseAmp scatter time delta i]
        by simp
    next
      case False
      have same: "\<And>b. triple (positions (particleStep noiseAmp b time delta i st)) (j * 3)
                        = triple (positions st) (j * 3)"
        "\<And>b. triple (velocities (particleStep noiseAmp b time delta i st)) (j * 3)
              = triple (velocities st) (j * 3)"
        using particleStep_triple [OF r, of noiseAmp _ time delta j] False by simp_all
      show ?thesis
        unfolding step using "1.IH" [OF \<open>i < count\<close> l] False
        by (auto simp: same particleStep_frame)
    qed
  next
    case False
    have stop: "simulationLoop i count noiseAmp scatter time delta st = st"
      using False by (subst simulationLoop.simps) simp
    show ?thesis unfolding stop using False by auto
  qed
qed

text \<open>
  Claim C2. For every requested mode and every motion intensity, the frame callback runs
  the scatter regime exactly when the requested mode is SCATTER or the motion intensity
  exceeds 0.25: \<open>isScatter\<close> is this condition, every particle is advanced by the
  scatter step when it holds and by the form step when it does not, and the container
  turns by \<open>0.5 * delta\<close> or \<open>0.1 * delta\<close> accordingly. In particular a FORM request
  with intensity at most 0.25 runs the form regime.
\<close>

theorem C2_mode_override:
  assumes "pointsRef st = Some pr" "length (positions st) = 3 * count"
    "length (velocities st) = 3 * count" "i < count"
  shows "(isScatter mode motionIntensity \<longleftrightarrow> (mode = SCATTER \<or> motionIntensity > 0.25))
    \<and> (triple (positions (useFrame mode motionIntensity count time delta st)) (i * 3),
        triple (velocities (useFrame mode motionIntensity count time delta st)) (i * 3)) =
         (if mode = SCATTER \<or> motionIntensity > 0.25
          then scatterParticle time delta (triple (positions st) (i * 3))
                 (triple (velocities st) (i * 3))
          else formParticle 0.02 time delta (triple (targetPositions st) (i * 3))
                 (triple (positions st) (i * 3)) (triple (velocities st) (i * 3)))
    \<and> map_option rotation_y (pointsRef (useFrame mode motionIntensity count time delta st)) =
         Some (rotation_y pr + (if mode = SCATTER \<or> motionIntensity > 0.25 then 0.5 else 0.1) * delta)
    \<and> (if mode = FORM \<and> motionIntensity \<le> 0.25 then \<not> isScatter mode motionIntensity
        else isScatter mode motionIntensity)"
proof -
  have s: "isScatter mode motionIntensity \<longleftrightarrow> (mode = SCATTER \<or> motionIntensity > 0.25)"
    by (simp add: isScatter_def)
  have f: "(if mode = FORM \<and> motionIntensity \<le> 0.25 then \<not> isScatter mode motionIntensity
        else isScatter mode motionIntensity)"
    by (cases mode) (auto simp: isScatter_def)
  let ?st = "simulationLoop 0 count 0.02 (isScatter mode motionIntensity) time delta st"
  have p: "positions (useFrame mode motionIntensity count time delta st) = positions ?st"
    "velocities (useFrame mode motionIntensity count time delta st) = velocities ?st"
    using assms(1) by (simp_all add: useFrame_def useFrameWith_def Let_def)
  have r: "map_option rotation_y (pointsRef (useFrame mode motionIntensity count time delta st)) =
         Some (rotation_y pr + (if mode = SCATTER \<or> motionIntensity > 0.25 then 0.5 else 0.1) * delta)"
    using assms(1) by (simp add: useFrame_def useFrameWith_def Let_def s)
  show ?thesis
    unfolding p
    using simulationLoop_triple [OF assms(2,3), of 0 "0.02" "isScatter mode motionIntensity" time delta i]
      assms(4) r f
    by (simp add: s)
qed

theorem C2_mode_override_witness:
  "isScatter FORM 0.3 \<and> \<not> isScatter FORM 0.25 \<and> isScatter SCATTER 0
   \<and> (triple (positions (useFrame FORM 0.3 2 0 0.016 demoParticles)) (1 * 3),
       triple (velocities (useFrame FORM 0.3 2 0 0.016 demoParticles)) (1 * 3))
      = scatterParticle 0 0.016 (4, 5, 6) (0.4, 0.5, 0.6)
   \<and> (triple (positions (useFrame FORM 0.25 2 0 0.016 demoParticles)) (1 * 3),
       triple (velocities (useFrame FORM 0.25 2 0 0.016 demoParticles)) (1 * 3))
      = formParticle 0.02 0 0.016 (0, 0, 0) (4, 5, 6) (0.4, 0.5, 0.6)"
  using C2_mode_override [of demoParticles "\<lparr>rotation_y = 0, position_needsUpdate = False, color_needsUpdate = False\<rparr>" 2 1 FORM "0.3" 0 "0.016"]
    C2_mode_override [of demoParticles "\<lparr>rotation_y = 0, position_needsUpdate = False, color_needsUpdate = False\<rparr>" 2 1 FORM "0.25" 0 "0.016"]
    C2_mode_override [of demoParticles "\<lparr>rotation_y = 0, position_needsUpdate = False, color_needsUpdate = False\<rparr>" 2 1 SCATTER 0 0 "0.016"]
  by (simp add: demoParticles_def triple_def)

section \<open>Shape selection commands\<close>

lemma DEFAULT_SHAPES_length: "length (DEFAULT_SHAPES g) = 7"
  by (simp add: DEFAULT_SHAPES_def split: prod.splits)

lemma js_rem_nonneg: "0 \<le> a \<Longrightarrow> 0 < b \<Longrightarrow> js_rem a b = a mod b"
  by (simp add: js_rem_def)

lemma next_idx: "0 \<le> currentShapeIdx s \<Longrightarrow> 0 < length shapes \<Longrightarrow>
  currentShapeIdx (handleNextShape shapes s) = (currentShapeIdx s + 1) mod int (length shapes)"
  by (simp add: handleNextShape_def js_rem_def)

lemma prev_idx: "0 \<le> currentShapeIdx s \<Longrightarrow> 0 < length shapes \<Longrightarrow>
  currentShapeIdx (handlePrevShape shapes s) = (currentShapeIdx s - 1) mod int (length shapes)"
proof -
  assume a: "0 \<le> currentShapeIdx s" "0 < length shapes"
  then have "0 \<le> currentShapeIdx s - 1 + int (length shapes)" by linarith
  then show ?thesis by (simp add: handlePrevShape_def js_rem_def)
qed

text \<open>
  Claim C8, as stated, fails: on the initial state of the seven-shape catalog a second
  \<open>next()\<close> moves the index from 1 to 2, and a second \<open>previous()\<close> from 6 to 5.
\<close>

theorem C8_next_not_idempotent:
  "handleNextShape (DEFAULT_SHAPES (\<lambda>n. 0)) (handleNextShape (DEFAULT_SHAPES (\<lambda>n. 0)) initialApp)
     \<noteq> handleNextShape (DEFAULT_SHAPES (\<lambda>n. 0)) initialApp
   \<and> currentShapeIdx (handleNextShape (DEFAULT_SHAPES (\<lambda>n. 0)) initialApp) = 1
   \<and> currentShapeIdx (handleNextShape (DEFAULT_SHAPES (\<lambda>n. 0))
        (handleNextShape (DEFAULT_SHAPES (\<lambda>n. 0)) initialApp)) = 2
   \<and> handlePrevShape (DEFAULT_SHAPES (\<lambda>n. 0)) (handlePrevShape (DEFAULT_SHAPES (\<lambda>n. 0)) initialApp)
     \<noteq> handlePrevShape (DEFAULT_SHAPES (\<lambda>n. 0)) initialApp
   \<and> currentShapeIdx (handlePrevShape (DEFAULT_SHAPES (\<lambda>n. 0)) initialApp) = 6
   \<and> currentShapeIdx (handlePrevShape (DEFAULT_SHAPES (\<lambda>n. 0))
        (handlePrevShape (DEFAULT_SHAPES (\<lambda>n. 0)) initialApp)) = 5"
proof -
  let ?D = "DEFAULT_SHAPES (\<lambda>n. 0)"
  have n1: "currentShapeIdx (handleNextShape ?D initialApp) = 1"
    by (simp add: handleNextShape_def DEFAULT_SHAPES_length initialApp_def js_rem_def)
  have n2: "currentShapeIdx (handleNextShape ?D (handleNextShape ?D initialApp)) = 2"
    by (simp add: handleNextShape_def DEFAULT_SHAPES_length initialApp_def js_rem_def)
  have p1: "currentShapeIdx (handlePrevShape ?D initialApp) = 6"
    by (simp add: handlePrevShape_def DEFAULT_SHAPES_length initialApp_def js_rem_def)
  have p2: "currentShapeIdx (handlePrevShape ?D (handlePrevShape ?D initialApp)) = 5"
    by (simp add: handlePrevShape_def DEFAULT_SHAPES_length initialApp_def js_rem_def)
  have "handleNextShape ?D (handleNextShape ?D initialApp) \<noteq> handleNextShape ?D initialApp"
    using n1 n2 by auto
  moreover have "handlePrevShape ?D (handlePrevShape ?D initialApp) \<noteq> handlePrevShape ?D initialApp"
    using p1 p2 by auto
  ultimately show ?thesis using n1 n2 p1 p2 by simp
qed

text \<open>
  Claim C8, amended. \<open>setCustom(name, points)\<close> is idempotent. \<open>next()\<close> and
  \<open>previous()\<close> are idempotent only in what they do to the override slot, which
  they clear; on the catalog index each call moves one step with wraparound, so that
  \<open>next\<close> and \<open>previous\<close> undo each other on the index, and a second call differs
  from the first whenever the catalog has more than one shape.
\<close>

theorem C8_commands:
  assumes "0 \<le> currentShapeIdx s" "currentShapeIdx s < int (length shapes)"
  shows "setCustom name points (setCustom name points s) = setCustom name points s
    \<and> customShapePoints (handleNextShape shapes s) = None \<and> customShapeName (handleNextShape shapes s) = None
    \<and> customShapePoints (handlePrevShape shapes s) = None \<and> customShapeName (handlePrevShape shapes s) = None
    \<and> currentShapeIdx (handleNextShape shapes s) = (currentShapeIdx s + 1) mod int (length shapes)
    \<and> currentShapeIdx (handlePrevShape shapes s) = (currentShapeIdx s - 1) mod int (length shapes)
    \<and> currentShapeIdx (handlePrevShape shapes (handleNextShape shapes s)) = currentShapeIdx s
    \<and> currentShapeIdx (handleNextShape shapes (handlePrevShape shapes s)) = currentShapeIdx s
    \<and> (if 1 < length shapes
        then handleNextShape shapes (handleNextShape shapes s) \<noteq> handleNextShape shapes s
           \<and> handlePrevShape shapes (handlePrevShape shapes s) \<noteq> handlePrevShape shapes s
        else handleNextShape shapes (handleNextShape shapes s) = handleNextShape shapes s
           \<and> handlePrevShape shapes (handlePrevShape shapes s) = handlePrevShape shapes s)"
proof -
  let ?n = "int (length shapes)"
  let ?i = "currentShapeIdx s"
  have n: "0 < length shapes" using assms by auto
  have ni: "0 \<le> currentShapeIdx (handleNextShape shapes s)"
    using assms n by (simp add: next_idx)
  have pv: "0 \<le> currentShapeIdx (handlePrevShape shapes s)"
    using assms n by (simp add: prev_idx)
  have a: "currentShapeIdx (handlePrevShape shapes (handleNextShape shapes s)) = ?i"
    using assms n ni by (simp add: prev_idx next_idx mod_diff_left_eq)
  have b: "currentShapeIdx (handleNextShape shapes (handlePrevShape shapes s)) = ?i"
    using assms n pv by (simp add: prev_idx next_idx mod_add_left_eq)
  have nn: "currentShapeIdx (handleNextShape shapes (handleNextShape shapes s)) = (?i + 2) mod ?n"
  proof -
    have "currentShapeIdx (handleNextShape shapes (handleNextShape shapes s)) = ((?i + 1) mod ?n + 1) mod ?n"
      using assms n ni by (simp add: next_idx)
    also have "\<dots> = (?i + 1 + 1) mod ?n" by (rule mod_add_left_eq)
    also have "?i + 1 + 1 = ?i + 2" by simp
    finally show ?thesis .
  qed
  have pp: "currentShapeIdx (handlePrevShape shapes (handlePrevShape shapes s)) = (?i - 2) mod ?n"
  proof -
    have "currentShapeIdx (handlePrevShape shapes (handlePrevShape shapes s)) = ((?i - 1) mod ?n - 1) mod ?n"
      using assms n pv by (simp add: prev_idx)
    also have "\<dots> = (?i - 1 - 1) mod ?n" by (rule mod_diff_left_eq)
    also have "?i - 1 - 1 = ?i - 2" by simp
    finally show ?thesis .
  qed
  have c: "1 < length shapes \<Longrightarrow> (?i + 2) mod ?n \<noteq> (?i + 1) mod ?n"
  proof
    assume 1: "1 < length shapes" and "(?i + 2) mod ?n = (?i + 1) mod ?n"
    then have "((?i + 2) - (?i + 1)) mod ?n = 0"
      by (metis mod_eq_dvd_iff dvd_eq_mod_eq_0)
    then show False using 1 by simp
  qed
  have d: "1 < length shapes \<Longrightarrow> (?i - 2) mod ?n \<noteq> (?i - 1) mod ?n"
  proof
    assume 1: "1 < length shapes" and "(?i - 2) mod ?n = (?i - 1) mod ?n"
    then have "((?i - 1) - (?i - 2)) mod ?n = 0"
      by (metis mod_eq_dvd_iff dvd_eq_mod_eq_0)
    then show False using 1 by simp
  qed
  have e: "\<not> 1 < length shapes \<Longrightarrow> handleNextShape shapes (handleNextShape shapes s) = handleNextShape shapes s
           \<and> handlePrevShape shapes (handlePrevShape shapes s) = handlePrevShape shapes s"
  proof -
    assume "\<not> 1 < length shapes"
    then have "length shapes = 1" using n by linarith
    then show ?thesis by (simp add: handleNextShape_def handlePrevShape_def js_rem_def)
  qed
  have f: "1 < length shapes \<Longrightarrow> handleNextShape shapes (handleNextShape shapes s) \<noteq> handleNextShape shapes s"
    using c nn next_idx[OF assms(1) n] by metis
  have g: "1 < length shapes \<Longrightarrow> handlePrevShape shapes (handlePrevShape shapes s) \<noteq> handlePrevShape shapes s"
    using d pp prev_idx[OF assms(1) n] by metis
  show ?thesis
    using a b e f g assms n
    by (simp add: next_idx prev_idx) (simp add: setCustom_def handleNextShape_def handlePrevShape_def)
qed

theorem C8_commands_witness:
  "setCustom (js ''Bell'') [] (setCustom (js ''Bell'') [] initialApp) = setCustom (js ''Bell'') [] initialApp
   \<and> currentShapeIdx (handlePrevShape (DEFAULT_SHAPES (\<lambda>n. 0)) (handleNextShape (DEFAULT_SHAPES (\<lambda>n. 0)) initialApp)) = 0
   \<and> handleNextShape (DEFAULT_SHAPES (\<lambda>n. 0)) (handleNextShape (DEFAULT_SHAPES (\<lambda>n. 0)) initialApp)
       \<noteq> handleNextShape (DEFAULT_SHAPES (\<lambda>n. 0)) initialApp"
  using C8_commands [of initialApp "DEFAULT_SHAPES (\<lambda>n. 0)" "js ''Bell''" "[]"]
  by (simp add: DEFAULT_SHAPES_length initialApp_def)

section \<open>The external shape request\<close>

lemma tripletLoop_map:
  "tripletLoop (3 * j) rawData =
     map (\<lambda>k. \<lparr>p_x = rawData ! (3 * k), p_y = rawData ! (3 * k + 1), p_z = rawData ! (3 * k + 2),
                p_color = None\<rparr>) [j..<length rawData div 3]"
proof (induction "length rawData div 3 - j" arbitrary: j)
  case 0
  then have le: "length rawData div 3 \<le> j" by simp
  then have "length rawData < 3 * j + 3" by linarith
  then show ?case using le
    by (simp add: tripletLoop.simps [of "3 * j"] tripletLoop.simps [of "3 * j + 3"])
next
  case (Suc d)
  then have lt: "j < length rawData div 3" by simp
  then have in_range: "3 * j + 2 < length rawData" by linarith
  have d: "d = length rawData div 3 - Suc j" using Suc.hyps(2) by simp
  have eq: "3 * j + 3 = 3 * Suc j" by simp
  have "tripletLoop (3 * j) rawData =
      \<lparr>p_x = rawData ! (3 * j), p_y = rawData ! (3 * j + 1), p_z = rawData ! (3 * j + 2),
        p_color = None\<rparr> # tripletLoop (3 * Suc j) rawData"
    using in_range by (subst tripletLoop.simps) (simp only: eq, simp)
  then show ?case using Suc.hyps(1) [OF d] lt by (simp add: upt_conv_Cons)
qed

lemma tripletLoop_0:
  "tripletLoop 0 rawData =
     map (\<lambda>k. \<lparr>p_x = rawData ! (3 * k), p_y = rawData ! (3 * k + 1), p_z = rawData ! (3 * k + 2),
                p_color = None\<rparr>) [0..<length rawData div 3]"
  using tripletLoop_map [of 0 rawData] by simp

text \<open>
  Claim C10. \<open>generateGeminiShape(prompt, count)\<close> never rejects: its promise always
  resolves. It resolves to the empty list when the API key is missing, when the request
  is rejected, when the text does not parse, and when the parsed value is not an array.
  Otherwise it resolves to the first \<open>count\<close> of the points built from the complete
  triplets of the flat array, of which there are \<open>length div 3\<close>: a trailing incomplete
  triplet is dropped. In every case the result has at most \<open>count\<close> points.
\<close>

theorem C10_generateGeminiShape:
  "generateGeminiShape ai parse prompt count =
     Inr (case ai of
            None \<Rightarrow> []
          | Some c \<Rightarrow>
              (case c prompt count of
                 Rejected e \<Rightarrow> []
               | Replied t \<Rightarrow>
                   (case parse (textOrDefault t) of
                      None \<Rightarrow> []
                    | Some JOther \<Rightarrow> []
                    | Some (JArray rawData) \<Rightarrow>
                        take count
                          (map (\<lambda>k. \<lparr>p_x = rawData ! (3 * k), p_y = rawData ! (3 * k + 1),
                                     p_z = rawData ! (3 * k + 2), p_color = None\<rparr>)
                             [0..<length rawData div 3]))))
   \<and> (\<exists>points. generateGeminiShape ai parse prompt count = Inr points \<and> length points \<le> count)"
  by (auto simp: generateGeminiShape_def tryBody_def slice0_def tripletLoop_0
      split: option.splits reply.splits json.splits sum.splits)

theorem C10_generateGeminiShape_witness:
  "generateGeminiShape (Some (\<lambda>p n. Replied (Some (js ''[1,2,3,4,5,6,7,8]''))))
      (\<lambda>t. Some (JArray [1, 2, 3, 4, 5, 6, 7, 8 :: real])) (js ''Bell'') 6000
    = Inr [\<lparr>p_x = 1, p_y = 2, p_z = 3, p_color = None\<rparr>, \<lparr>p_x = 4, p_y = 5, p_z = 6, p_color = None\<rparr>]
   \<and> generateGeminiShape (Some (\<lambda>p n. Replied (Some (js ''[1,2,3,4,5,6,7,8]''))))
      (\<lambda>t. Some (JArray [1, 2, 3, 4, 5, 6, 7, 8 :: real])) (js ''Bell'') 1
    = Inr [\<lparr>p_x = 1, p_y = 2, p_z = 3, p_color = None\<rparr>]
   \<and> generateGeminiShape None (\<lambda>t. Some (JArray [1, 2, 3 :: real])) (js ''Bell'') 6000 = Inr []
   \<and> generateGeminiShape (Some (\<lambda>p n. Rejected (Thrown (js ''429'')))) (\<lambda>t. Some (JArray [1, 2, 3 :: real])) (js ''Bell'') 6000 = Inr []
   \<and> generateGeminiShape (Some (\<lambda>p n. Replied (Some (js ''{}'')))) (\<lambda>t. Some (JOther :: real json)) (js ''Bell'') 6000 = Inr []
   \<and> generateGeminiShape (Some (\<lambda>p n. Replied (Some (js ''not json'')))) (\<lambda>t. (None :: real json option)) (js ''Bell'') 6000 = Inr []"
  using C10_generateGeminiShape [of "Some (\<lambda>p n. Replied (Some (js ''[1,2,3,4,5,6,7,8]'')))"
      "\<lambda>t. Some (JArray [1, 2, 3, 4, 5, 6, 7, 8 :: real])" "js ''Bell''" 6000]
    C10_generateGeminiShape [of "Some (\<lambda>p n. Replied (Some (js ''[1,2,3,4,5,6,7,8]'')))"
      "\<lambda>t. Some (JArray [1, 2, 3, 4, 5, 6, 7, 8 :: real])" "js ''Bell''" 1]
    C10_generateGeminiShape [of None "\<lambda>t. Some (JArray [1, 2, 3 :: real])" "js ''Bell''" 6000]
    C10_generateGeminiShape [of "Some (\<lambda>p n. Rejected (Thrown (js ''429'')))" "\<lambda>t. Some (JArray [1, 2, 3 :: real])" "js ''Bell''" 6000]
    C10_generateGeminiShape [of "Some (\<lambda>p n. Replied (Some (js ''{}'')))" "\<lambda>t. Some (JOther :: real json)" "js ''Bell''" 6000]
    C10_generateGeminiShape [of "Some (\<lambda>p n. Replied (Some (js ''not json'')))" "\<lambda>t. (None :: real json option)" "js ''Bell''" 6000]
  by (simp add: upt_conv_Cons)

lemma settle_failure:
  assumes "outcome = Inl e \<or> outcome = Inr []"
  shows "customShapePoints (generateShapeSettle prompt outcome s) = customShapePoints s"
    and "customShapeName (generateShapeSettle prompt outcome s) = customShapeName s"
    and "currentShapeIdx (generateShapeSettle prompt outcome s) = currentShapeIdx s"
    and "aiLoading (generateShapeSettle prompt outcome s) = False"
    and "aiStatus (generateShapeSettle prompt outcome s) =
           (if outcome = Inr [] then js ''The spell fizzled.'' else js ''Connection error.'')"
  using assms by (auto simp: generateShapeSettle_def)

lemma activeShape_cong:
  "customShapePoints s' = customShapePoints s \<Longrightarrow> customShapeName s' = customShapeName s \<Longrightarrow>
   currentShapeIdx s' = currentShapeIdx s \<Longrightarrow> activeShape shapes s' = activeShape shapes s"
  by (simp add: activeShape_def hasCustom_def)

lemma begin_slot:
  "customShapePoints (generateShapeBegin s) = customShapePoints s"
  "customShapeName (generateShapeBegin s) = customShapeName s"
  "currentShapeIdx (generateShapeBegin s) = currentShapeIdx s"
  by (simp_all add: generateShapeBegin_def)

text \<open>
  A prompt of white space only, Unicode spaces and line separators included, makes no
  request: the handler returns at once and the state is what it was.
\<close>

lemma trim_unicode_blank: "trim [0x20, 0xA0, 0x2028, 0x3000, 0xFEFF, 0x09] = []"
  by (simp add: trim_def isWhiteSpace_def)

lemma handleGenerateShape_blank:
  "trim (promptInput s) = [] \<Longrightarrow> handleGenerateShape ai parse s = s"
  by (simp add: handleGenerateShape_def)

text \<open>
  Claim C7. When the shape request is rejected or resolves to an empty list, the custom
  name and points and the catalog index are what they were, so the active shape is
  retained, and the failure shows as status text (\<open>Connection error.\<close> or
  \<open>The spell fizzled.\<close>) with the loading flag cleared. This holds for the state the
  settled promise finds, whatever it is. For the handler as a whole: when the service
  resolves to the empty list nothing of the catalog changes, and the only other thing
  the service can do is resolve to a non-empty list, the one case in which name and
  points are written.
\<close>

theorem C7_failure_retains_shape:
  assumes "outcome = Inl e \<or> outcome = Inr []"
  shows "customShapePoints (generateShapeSettle prompt outcome s) = customShapePoints s
    \<and> customShapeName (generateShapeSettle prompt outcome s) = customShapeName s
    \<and> currentShapeIdx (generateShapeSettle prompt outcome s) = currentShapeIdx s
    \<and> activeShape shapes (generateShapeSettle prompt outcome s) = activeShape shapes s
    \<and> aiLoading (generateShapeSettle prompt outcome s) = False
    \<and> aiStatus (generateShapeSettle prompt outcome s) =
          (if outcome = Inr [] then js ''The spell fizzled.'' else js ''Connection error.'')
    \<and> (if generateGeminiShape ai parse (promptInput s) PARTICLE_COUNT = Inr []
        then customShapePoints (handleGenerateShape ai parse s) = customShapePoints s
           \<and> customShapeName (handleGenerateShape ai parse s) = customShapeName s
           \<and> currentShapeIdx (handleGenerateShape ai parse s) = currentShapeIdx s
           \<and> activeShape shapes (handleGenerateShape ai parse s) = activeShape shapes s
           \<and> aiStatus (handleGenerateShape ai parse s) =
                (if trim (promptInput s) = [] then aiStatus s else js ''The spell fizzled.'')
        else (\<exists>points. points \<noteq> [] \<and>
                generateGeminiShape ai parse (promptInput s) PARTICLE_COUNT = Inr points))"
proof -
  have 1: "activeShape shapes (generateShapeSettle prompt outcome s) = activeShape shapes s"
    by (rule activeShape_cong) (simp_all add: settle_failure [OF assms])
  have 2: "generateGeminiShape ai parse (promptInput s) PARTICLE_COUNT = Inr [] \<Longrightarrow>
           customShapePoints (handleGenerateShape ai parse s) = customShapePoints s
           \<and> customShapeName (handleGenerateShape ai parse s) = customShapeName s
           \<and> currentShapeIdx (handleGenerateShape ai parse s) = currentShapeIdx s
           \<and> aiStatus (handleGenerateShape ai parse s) =
                (if trim (promptInput s) = [] then aiStatus s else js ''The spell fizzled.'')"
    by (simp add: handleGenerateShape_def settle_failure begin_slot)
  have 3: "generateGeminiShape ai parse (promptInput s) PARTICLE_COUNT = Inr [] \<Longrightarrow>
           activeShape shapes (handleGenerateShape ai parse s) = activeShape shapes s"
    by (rule activeShape_cong) (simp_all add: 2)
  have 4: "generateGeminiShape ai parse (promptInput s) PARTICLE_COUNT \<noteq> Inr [] \<Longrightarrow>
           \<exists>points. points \<noteq> [] \<and>
                generateGeminiShape ai parse (promptInput s) PARTICLE_COUNT = Inr points"
    by (auto simp: generateGeminiShape_def split: option.splits sum.splits)
  show ?thesis using 1 2 3 4 by (simp add: settle_failure [OF assms])
qed

theorem C7_failure_retains_shape_witness:
  "customShapeName (generateShapeSettle (js ''Sleigh'') (Inl (Thrown (js ''offline''))) bellApp) = Some (js ''Bell'')
   \<and> customShapePoints (generateShapeSettle (js ''Sleigh'') (Inl (Thrown (js ''offline''))) bellApp)
       = Some [\<lparr>p_x = 1, p_y = 2, p_z = 3, p_color = None\<rparr>]
   \<and> aiStatus (generateShapeSettle (js ''Sleigh'') (Inl (Thrown (js ''offline''))) bellApp) = js ''Connection error.''
   \<and> customShapeName (handleGenerateShape None (\<lambda>t. None) bellApp) = Some (js ''Bell'')
   \<and> aiStatus (handleGenerateShape None (\<lambda>t. None) bellApp) = js ''The spell fizzled.''"
proof -
  have j: "js ''Sleigh'' = [83, 108, 101, 105, 103, 104]"
    by (simp add: js_def)
  have t: "trim (js ''Sleigh'') \<noteq> []"
    unfolding j by (simp add: trim_def isWhiteSpace_def)
  have g: "generateGeminiShape None (\<lambda>t. None) (js ''Sleigh'') PARTICLE_COUNT = (Inr [] :: exn + real Point3D list)"
    by (simp add: generateGeminiShape_def)
  show ?thesis
    using C7_failure_retains_shape [of "Inl (Thrown (js ''offline''))" "Thrown (js ''offline'')" "js ''Sleigh''" bellApp
        "[]" None "\<lambda>t. None"] t g
    by (simp add: bellApp_def initialApp_def)
qed

section \<open>Shape change\<close>

lemma writeTarget_frame:
  "positions (writeTarget i e st) = positions st"
  "velocities (writeTarget i e st) = velocities st"
  "pointsRef (writeTarget i e st) = pointsRef st"
  "length (targetPositions (writeTarget i e st)) = length (targetPositions st)"
  "length (colors (writeTarget i e st)) = length (colors st)"
  by (simp_all add: writeTarget_def split: prod.splits)

lemma useEffectLoop_frame:
  "positions (useEffectLoop i count targetPoints defaultColor st) = positions st \<and>
   velocities (useEffectLoop i count targetPoints defaultColor st) = velocities st \<and>
   pointsRef (useEffectLoop i count targetPoints defaultColor st) = pointsRef st \<and>
   length (targetPositions (useEffectLoop i count targetPoints defaultColor st)) = length (targetPositions st) \<and>
   length (colors (useEffectLoop i count targetPoints defaultColor st)) = length (colors st)"
proof (induction i count targetPoints defaultColor st rule: useEffectLoop.induct)
  case (1 i count targetPoints defaultColor st)
  show ?case
  proof (cases "i < count")
    case True
    then show ?thesis
      using "1.IH" by (subst (1 2 3 4 5) useEffectLoop.simps) (simp add: writeTarget_frame)
  next
    case False
    then show ?thesis by (subst (1 2 3 4 5) useEffectLoop.simps) simp
  qed
qed

lemma triple_update:
  "i * 3 + 2 < length a \<Longrightarrow>
   triple (a[i * 3 := v0, i * 3 + 1 := v1, i * 3 + 2 := v2]) (j * 3) =
     (if j = i then (v0, v1, v2) else triple a (j * 3))"
  by (auto simp: triple_def nth_list_update)

lemma writeTarget_triple:
  assumes "i * 3 + 2 < length (targetPositions st)" "i * 3 + 2 < length (colors st)"
  shows "triple (targetPositions (writeTarget i e st)) (j * 3) =
           (if j = i then fst e else triple (targetPositions st) (j * 3))"
    and "triple (colors (writeTarget i e st)) (j * 3) =
           (if j = i then snd e else triple (colors st) (j * 3))"
  using assms by (cases e; auto simp: writeTarget_def triple_def nth_list_update)+

lemma useEffectLoop_triple:
  "length (targetPositions st) = 3 * count \<Longrightarrow> length (colors st) = 3 * count \<Longrightarrow>
   triple (targetPositions (useEffectLoop i count targetPoints defaultColor st)) (j * 3) =
     (if i \<le> j \<and> j < count then fst (targetEntry targetPoints defaultColor j)
      else triple (targetPositions st) (j * 3)) \<and>
   triple (colors (useEffectLoop i count targetPoints defaultColor st)) (j * 3) =
     (if i \<le> j \<and> j < count then snd (targetEntry targetPoints defaultColor j)
      else triple (colors st) (j * 3))"
proof (induction i count targetPoints defaultColor st rule: useEffectLoop.induct)
  case (1 i count targetPoints defaultColor st)
  show ?case
  proof (cases "i < count")
    case True
    let ?st = "writeTarget i (targetEntry targetPoints defaultColor i) st"
    have r: "i * 3 + 2 < length (targetPositions st)" "i * 3 + 2 < length (colors st)"
      using True "1.prems" by simp_all
    have l: "length (targetPositions ?st) = 3 * count" "length (colors ?st) = 3 * count"
      using "1.prems" by (simp_all add: writeTarget_frame)
    have step: "useEffectLoop i count targetPoints defaultColor st =
                useEffectLoop (Suc i) count targetPoints defaultColor ?st"
      using True by (subst useEffectLoop.simps) simp
    show ?thesis
      unfolding step using "1.IH" [OF True l] True
      by (auto simp: writeTarget_triple [OF r])
  next
    case False
    have stop: "useEffectLoop i count targetPoints defaultColor st = st"
      using False by (subst useEffectLoop.simps) simp
    show ?thesis unfolding stop using False by auto
  qed
qed

text \<open>
  Claim C4. A shape change (the effect that runs when the target point set or the
  colour changes) leaves the position and the velocity array of every particle as they
  were: apart from the target positions, the colours and the colour-update flag of the
  mounted object, the state after the effect is the state before it.
\<close>

theorem C4_shape_change_frame:
  "positions (useEffect threeColor count targetPoints color st) = positions st \<and>
   velocities (useEffect threeColor count targetPoints color st) = velocities st \<and>
   (useEffect threeColor count targetPoints color st)
      \<lparr>targetPositions := targetPositions st, colors := colors st, pointsRef := pointsRef st\<rparr> = st"
proof -
  let ?st = "useEffectLoop 0 count targetPoints (threeColor (colorProp color)) st"
  have "positions ?st = positions st" "velocities ?st = velocities st"
    by (simp_all add: useEffectLoop_frame)
  show ?thesis
    by (cases "pointsRef ?st") (simp_all add: useEffect_def Let_def useEffectLoop_frame)
qed


theorem C4_shape_change_frame_witness:
  "positions (useEffect (\<lambda>c. (1, 0.8, 0)) 2 [\<lparr>p_x = 7, p_y = 8, p_z = 9, p_color = None\<rparr>] None demoParticles)
     = [1, 2, 3, 4, 5, 6] \<and>
   velocities (useEffect (\<lambda>c. (1, 0.8, 0)) 2 [\<lparr>p_x = 7, p_y = 8, p_z = 9, p_color = None\<rparr>] None demoParticles)
     = [0.1, 0.2, 0.3, 0.4, 0.5, 0.6]"
  using C4_shape_change_frame [of "\<lambda>c. (1, 0.8, 0)" 2 "[\<lparr>p_x = 7, p_y = 8, p_z = 9, p_color = None\<rparr>]" None demoParticles]
  by (simp add: demoParticles_def)

text \<open>
  Claim C5. After a shape change, for every particle index \<open>i\<close> below the particle
  count: when the shape has at least one point, the target of particle \<open>i\<close> is the
  point at index \<open>i mod length\<close> and its colour is that point's colour, or the fallback
  colour when the point has none; when the shape has no point, the target is the origin
  and the colour is the fallback colour. Both arrays keep their length, whatever the
  particle count is relative to the number of points. (Stores into the Float32Array
  round to single precision, which the model does not have.)
\<close>

theorem C5_shape_change_targets:
  assumes "length (targetPositions st) = 3 * count" "length (colors st) = 3 * count" "i < count"
  shows "triple (targetPositions (useEffect threeColor count targetPoints color st)) (i * 3) =
           (if length targetPoints > 0
            then (p_x (targetPoints ! (i mod length targetPoints)),
                  p_y (targetPoints ! (i mod length targetPoints)),
                  p_z (targetPoints ! (i mod length targetPoints)))
            else (0, 0, 0))
    \<and> triple (colors (useEffect threeColor count targetPoints color st)) (i * 3) =
           (if length targetPoints > 0
            then (case p_color (targetPoints ! (i mod length targetPoints)) of
                    Some c \<Rightarrow> c | None \<Rightarrow> threeColor (colorProp color))
            else threeColor (colorProp color))
    \<and> length (targetPositions (useEffect threeColor count targetPoints color st)) = 3 * count
    \<and> length (colors (useEffect threeColor count targetPoints color st)) = 3 * count"
proof -
  let ?st = "useEffectLoop 0 count targetPoints (threeColor (colorProp color)) st"
  have eq: "targetPositions (useEffect threeColor count targetPoints color st) = targetPositions ?st"
    "colors (useEffect threeColor count targetPoints color st) = colors ?st"
    by (cases "pointsRef ?st"; simp add: useEffect_def Let_def)+
  show ?thesis
    unfolding eq using useEffectLoop_triple [OF assms(1,2), of 0 targetPoints "threeColor (colorProp color)" i] assms
    by (simp add: useEffectLoop_frame targetEntry_def Let_def)
qed

theorem C5_shape_change_targets_witness:
  "triple (targetPositions (useEffect (\<lambda>c. (1, 0.8, 0)) 2 [\<lparr>p_x = 7, p_y = 8, p_z = 9, p_color = None\<rparr>] None demoParticles)) (1 * 3)
     = (7, 8, 9) \<and>
   triple (colors (useEffect (\<lambda>c. (1, 0.8, 0)) 2 [\<lparr>p_x = 7, p_y = 8, p_z = 9, p_color = None\<rparr>] None demoParticles)) (1 * 3)
     = (1, 0.8, 0) \<and>
   triple (targetPositions (useEffect (\<lambda>c. (1, 0.8, 0)) 2 [] None demoParticles)) (1 * 3) = (0, 0, 0) \<and>
   triple (colors (useEffect (\<lambda>c. (1, 0.8, 0)) 2 [] None demoParticles)) (1 * 3) = (1, 0.8, 0)"
  using C5_shape_change_targets [of demoParticles 2 1 "\<lambda>c. (1, 0.8, 0)" "[\<lparr>p_x = 7, p_y = 8, p_z = 9, p_color = None\<rparr>]" None]
    C5_shape_change_targets [of demoParticles 2 1 "\<lambda>c. (1, 0.8, 0)" "[]" None]
  by (simp add: demoParticles_def)

section \<open>How many points a generator returns\<close>

lemma for_loop_step:
  "real i < bound \<Longrightarrow>
   for_loop i bound body g =
     (fst (body i g) @ fst (for_loop (Suc i) bound body (snd (body i g))),
      snd (for_loop (Suc i) bound body (snd (body i g))))"
  by (subst for_loop.simps) (simp add: split_def)

lemma for_loop_stop: "\<not> real i < bound \<Longrightarrow> for_loop i bound body g = ([], g)"
  by (subst for_loop.simps) simp

lemma for_loop_length:
  "(\<forall>j g. length (fst (body j g)) = m) \<Longrightarrow>
   length (fst (for_loop i bound body g)) = m * (nat \<lceil>bound\<rceil> - i)"
proof (induction i bound body g rule: for_loop.induct)
  case (1 i bound body g)
  show ?case
  proof (cases "real i < bound")
    case True
    have lt: "i < nat \<lceil>bound\<rceil>" using True by linarith
    have "length (fst (for_loop (Suc i) bound body (snd (body i g)))) = m * (nat \<lceil>bound\<rceil> - Suc i)"
      using "1.IH" [OF True prod.collapse "1.prems"] .
    moreover have "m + m * (nat \<lceil>bound\<rceil> - Suc i) = m * (nat \<lceil>bound\<rceil> - i)"
      using lt by (metis Suc_diff_Suc mult_Suc_right)
    ultimately show ?thesis using "1.prems" by (simp add: for_loop_step [OF True])
  next
    case False
    then have "nat \<lceil>bound\<rceil> \<le> i" by linarith
    then show ?thesis by (simp add: for_loop_stop [OF False])
  qed
qed

lemma push1_length: "length (fst (push1 f i g)) = 1"
  by (simp add: push1_def split_def)

lemma push1_loop_length: "length (fst (for_loop 0 bound (push1 f) g)) = nat \<lceil>bound\<rceil>"
  using for_loop_length [of "push1 f" 1 0 bound g] by (simp add: push1_length)

lemma forEach_length:
  "(\<forall>v g. length (fst (body v g)) = m) \<Longrightarrow> length (fst (forEach vs body g)) = m * length vs"
  by (induction vs arbitrary: g) (simp_all add: split_def)

lemma bowCount_range: "0 \<le> bowCount count \<and> bowCount count \<le> int count"
proof -
  have "real count * 0.15 \<le> real count" by simp
  then have "\<lfloor>real count * 0.15\<rfloor> \<le> \<lfloor>real count\<rfloor>" by (rule floor_mono)
  then show ?thesis by (simp add: bowCount_def)
qed

lemma bodyCount_range: "0 \<le> bodyCount count \<and> bodyCount count \<le> int count"
proof -
  have "real count * 0.65 \<le> real count" by simp
  then have "\<lfloor>real count * 0.65\<rfloor> \<le> \<lfloor>real count\<rfloor>" by (rule floor_mono)
  then show ?thesis by (simp add: bodyCount_def)
qed

lemma eyeFeatures_length: "length (fst (eyeFeatures ex g)) = 6"
  by (simp add: eyeFeatures_def split_def push1_loop_length)

lemma noseFeature_length: "length (fst (noseFeature k g)) = 1"
  by (simp add: noseFeature_def split_def Let_def)

lemma mouthFeatures_length: "length (fst (mouthFeatures k g)) = 5"
  by (simp add: mouthFeatures_def split_def Let_def push1_loop_length)

lemma armFeatures_length: "length (fst (armFeatures k g)) = 2"
  by (simp add: armFeatures_def split_def Let_def)

lemma snowmanFeatures_length:
  "length (fst (snowmanFeatures details g)) = nat \<lceil>real_of_int details * 0.4\<rceil> + 227"
proof -
  have b: "\<forall>v g. length (fst (for_loop 0 10 (push1 (buttonFeature v)) g)) = 10"
    by (simp add: push1_loop_length)
  have e: "\<forall>v g. length (fst (eyeFeatures v g)) = 6" by (simp add: eyeFeatures_length)
  show ?thesis
    by (simp add: snowmanFeatures_def split_def push1_loop_length
        forEach_length [OF e] forEach_length [OF b]
        for_loop_length [of noseFeature 1] for_loop_length [of mouthFeatures 5]
        for_loop_length [of armFeatures 2]
        noseFeature_length mouthFeatures_length armFeatures_length eyeFeatures_length)
qed

lemma detailPoint_length: "features \<noteq> [] \<Longrightarrow> length (fst (detailPoint features i g)) = 1"
  by (simp add: detailPoint_def featureAt_def split_def Let_def)

lemma snowDetailPoints_length:
  "features \<noteq> [] \<Longrightarrow>
   length (fst (snowDetailPoints count features g)) = nat (detailsCount count)"
  using for_loop_length [of "detailPoint features" 1 0 "real_of_int (detailsCount count)" g]
  by (simp add: snowDetailPoints_def detailPoint_length)


lemma nat_floor_le: "0 \<le> a \<Longrightarrow> a \<le> int count \<Longrightarrow> nat (int count - a) + nat a = count"
  by linarith

text \<open>
  Claim C1. For every count above zero, each of the eight generators returns exactly
  \<open>count\<close> points, whatever the random source. The present is its box points followed
  by its bow points, \<open>floor(count * 0.15)\<close> bow points and \<open>count - floor(count * 0.15)\<close>
  box points. The snowman is its body points followed by its detail points,
  \<open>floor(count * 0.65)\<close> body points and \<open>count - floor(count * 0.65)\<close> detail points:
  the feature list is never empty, so the detail loop pushes a point at every index.
  (The products are exact here; the source rounds them to a double before the floor.)
\<close>

theorem C1_generator_counts:
  assumes "0 < count"
  shows "length (fst (generateTreePoints count g)) = count
    \<and> length (fst (generateSpherePoints count radius yOffset baseColor g)) = count
    \<and> length (fst (generatePresentPoints count g)) = count
    \<and> length (fst (generateStarPoints count g)) = count
    \<and> length (fst (generateSnowmanPoints count g)) = count
    \<and> length (fst (generateCandyCanePoints count g)) = count
    \<and> length (fst (generateWreathPoints count g)) = count
    \<and> length (fst (generateSantaHatPoints count g)) = count
    \<and> fst (generatePresentPoints count g)
         = fst (presentBoxPoints count g) @ fst (presentBowPoints count (snd (presentBoxPoints count g)))
    \<and> int (length (fst (presentBowPoints count g'))) = \<lfloor>real count * 0.15\<rfloor>
    \<and> int (length (fst (presentBoxPoints count g))) = int count - \<lfloor>real count * 0.15\<rfloor>
    \<and> fst (generateSnowmanPoints count g)
         = fst (snowBodyPoints count g)
           @ fst (snowDetailPoints count
                    (fst (snowmanFeatures (detailsCount count) (snd (snowBodyPoints count g))))
                    (snd (snowmanFeatures (detailsCount count) (snd (snowBodyPoints count g)))))
    \<and> int (length (fst (snowBodyPoints count g))) = \<lfloor>real count * 0.65\<rfloor>
    \<and> fst (snowmanFeatures (detailsCount count) g') \<noteq> []
    \<and> int (length (fst (snowDetailPoints count (fst (snowmanFeatures (detailsCount count) g')) g'')))
         = int count - \<lfloor>real count * 0.65\<rfloor>"
proof -
  have simple: "length (fst (generateTreePoints count g)) = count"
    "length (fst (generateSpherePoints count radius yOffset baseColor g)) = count"
    "length (fst (generateStarPoints count g)) = count"
    "length (fst (generateCandyCanePoints count g)) = count"
    "length (fst (generateWreathPoints count g)) = count"
    "length (fst (generateSantaHatPoints count g)) = count"
    by (simp_all add: generateTreePoints_def generateSpherePoints_def generateStarPoints_def
        generateCandyCanePoints_def generateWreathPoints_def generateSantaHatPoints_def
        push1_loop_length)
  have bow: "\<And>h. length (fst (presentBowPoints count h)) = nat (bowCount count)"
    by (simp add: presentBowPoints_def push1_loop_length)
  have box: "\<And>h. length (fst (presentBoxPoints count h)) = nat (boxCount count)"
    by (simp add: presentBoxPoints_def push1_loop_length)
  have present_split: "fst (generatePresentPoints count g)
         = fst (presentBoxPoints count g) @ fst (presentBowPoints count (snd (presentBoxPoints count g)))"
    by (simp add: generatePresentPoints_def split_def)
  have present: "length (fst (generatePresentPoints count g)) = count"
    using bowCount_range [of count]
    by (simp add: present_split bow box boxCount_def nat_floor_le)
  have body: "\<And>h. length (fst (snowBodyPoints count h)) = nat (bodyCount count)"
    by (simp add: snowBodyPoints_def push1_loop_length)
  have feat: "\<And>h. fst (snowmanFeatures (detailsCount count) h) \<noteq> []"
  proof
    fix h assume "fst (snowmanFeatures (detailsCount count) h) = []"
    then have "length (fst (snowmanFeatures (detailsCount count) h)) = 0" by simp
    then show False by (simp add: snowmanFeatures_length)
  qed
  have detail: "\<And>h h'. length (fst (snowDetailPoints count (fst (snowmanFeatures (detailsCount count) h)) h'))
      = nat (detailsCount count)"
    by (rule snowDetailPoints_length [OF feat])
  have snow_split: "fst (generateSnowmanPoints count g)
         = fst (snowBodyPoints count g)
           @ fst (snowDetailPoints count
                    (fst (snowmanFeatures (detailsCount count) (snd (snowBodyPoints count g))))
                    (snd (snowmanFeatures (detailsCount count) (snd (snowBodyPoints count g)))))"
    by (simp add: generateSnowmanPoints_def split_def)
  have dc: "nat (detailsCount count) + nat (bodyCount count) = count"
    using bodyCount_range [of count] nat_floor_le [of "bodyCount count" count]
    by (simp add: detailsCount_def)
  have snow: "length (fst (generateSnowmanPoints count g)) = count"
    using dc by (simp add: snow_split body detail)
  have bowI: "int (length (fst (presentBowPoints count g'))) = \<lfloor>real count * 0.15\<rfloor>"
    using bowCount_range [of count] by (simp add: bow) (simp add: bowCount_def)
  have boxI: "int (length (fst (presentBoxPoints count g))) = int count - \<lfloor>real count * 0.15\<rfloor>"
    using bowCount_range [of count] by (simp add: box boxCount_def) (simp add: bowCount_def)
  have bodyI: "int (length (fst (snowBodyPoints count g))) = \<lfloor>real count * 0.65\<rfloor>"
    using bodyCount_range [of count] by (simp add: body) (simp add: bodyCount_def)
  have detailI: "int (length (fst (snowDetailPoints count (fst (snowmanFeatures (detailsCount count) g')) g'')))
         = int count - \<lfloor>real count * 0.65\<rfloor>"
  proof -
    have "int (length (fst (snowDetailPoints count (fst (snowmanFeatures (detailsCount count) g')) g'')))
          = detailsCount count"
      using bodyCount_range [of count] by (simp add: detail) (simp add: detailsCount_def)
    then show ?thesis by (simp add: detailsCount_def bodyCount_def)
  qed
  show ?thesis
    using simple present snow present_split snow_split bowI boxI bodyI detailI feat by blast
qed

theorem C1_generator_counts_witness:
  "length (fst (generateTreePoints 100 (\<lambda>n. 0))) = 100
   \<and> length (fst (generatePresentPoints 100 (\<lambda>n. 0))) = 100
   \<and> int (length (fst (presentBowPoints 100 (\<lambda>n. 0)))) = 15
   \<and> int (length (fst (presentBoxPoints 100 (\<lambda>n. 0)))) = 85
   \<and> length (fst (generateSnowmanPoints 100 (\<lambda>n. 0))) = 100
   \<and> int (length (fst (snowBodyPoints 100 (\<lambda>n. 0)))) = 65"
proof -
  have pos: "0 < (100 :: nat)" by simp
  have f1: "\<lfloor>real 100 * 0.15\<rfloor> = (15 :: int)" and f2: "\<lfloor>real 100 * 0.65\<rfloor> = (65 :: int)"
    by simp_all
  note th = C1_generator_counts [OF pos, of "\<lambda>n. 0" 1 0 "(1, 1, 1)" "\<lambda>n. 0" "\<lambda>n. 0"]
  have "length (fst (generateTreePoints 100 (\<lambda>n. 0))) = 100"
    and "length (fst (generatePresentPoints 100 (\<lambda>n. 0))) = 100"
    and "length (fst (generateSnowmanPoints 100 (\<lambda>n. 0))) = 100"
    and "int (length (fst (presentBowPoints 100 (\<lambda>n. 0)))) = \<lfloor>real 100 * 0.15\<rfloor>"
    and "int (length (fst (presentBoxPoints 100 (\<lambda>n. 0)))) = int 100 - \<lfloor>real 100 * 0.15\<rfloor>"
    and "int (length (fst (snowBodyPoints 100 (\<lambda>n. 0)))) = \<lfloor>real 100 * 0.65\<rfloor>"
    using th by blast+
  then show ?thesis unfolding f1 f2 by simp
qed

section \<open>Geometric bounds\<close>

lemma Math_random_unit:
  "unit_rng g \<Longrightarrow> 0 \<le> fst (Math_random g) \<and> fst (Math_random g) < 1 \<and> unit_rng (snd (Math_random g))"
  by (simp add: unit_rng_def Math_random_def)

lemma for_loop_all:
  "(\<forall>j g. I g \<longrightarrow> (\<forall>p \<in> set (fst (body j g)). P p) \<and> I (snd (body j g))) \<Longrightarrow> I g \<Longrightarrow>
   (\<forall>p \<in> set (fst (for_loop i bound body g)). P p) \<and> I (snd (for_loop i bound body g))"
proof (induction i bound body g rule: for_loop.induct)
  case (1 i bound body g)
  show ?case
  proof (cases "real i < bound")
    case True
    have b: "(\<forall>p \<in> set (fst (body i g)). P p) \<and> I (snd (body i g))"
      using "1.prems" by blast
    have "(\<forall>p \<in> set (fst (for_loop (Suc i) bound body (snd (body i g)))). P p)
          \<and> I (snd (for_loop (Suc i) bound body (snd (body i g))))"
      using "1.IH" [OF True prod.collapse "1.prems"(1)] b by blast
    then show ?thesis using b by (auto simp: for_loop_step [OF True])
  next
    case False
    then show ?thesis using "1.prems" by (simp add: for_loop_stop [OF False])
  qed
qed

lemma push1_loop_all:
  assumes "\<And>g. unit_rng g \<Longrightarrow> P (fst (f g)) \<and> unit_rng (snd (f g))" "unit_rng g"
  shows "\<forall>p \<in> set (fst (for_loop 0 bound (push1 f) g)). P p"
proof -
  have "\<forall>j g. unit_rng g \<longrightarrow> (\<forall>p \<in> set (fst (push1 f j g)). P p) \<and> unit_rng (snd (push1 f j g))"
    using assms(1) by (simp add: push1_def split_def)
  from for_loop_all [OF this assms(2)] show ?thesis by blast
qed

lemma mixColor_unit: "unit_rng g \<Longrightarrow> unit_rng (snd (mixColor base noise g))"
  by (cases base) (simp add: mixColor_def split_def Let_def unit_rng_def Math_random_def)

lemma treePoint_height:
  assumes "unit_rng g"
  shows "(- 1.5 \<le> p_y (fst (treePoint g)) \<and> p_y (fst (treePoint g)) \<le> 1.5) \<and> unit_rng (snd (treePoint g))"
proof -
  have 0: "0 \<le> g 0" "g 0 < 1" using assms by (simp_all add: unit_rng_def)
  have y: "p_y (fst (treePoint g)) = g 0 * 3 - 1.5"
    by (simp add: treePoint_def split_def Let_def Math_random_def)
  have u: "unit_rng (snd (treePoint g))"
    using assms by (simp add: treePoint_def split_def Let_def Math_random_def unit_rng_def)
  show ?thesis using 0 u by (simp add: y)
qed

lemma sphere_norm_ring:
  fixes r a b c d :: real
  shows "(r * a * c)\<^sup>2 + (r * a * d)\<^sup>2 + (r * b)\<^sup>2 = r\<^sup>2 * (a\<^sup>2 * (c\<^sup>2 + d\<^sup>2) + b\<^sup>2)"
  by algebra

lemma sphere_norm:
  fixes r phi theta :: real
  shows "(r * sin phi * cos theta)\<^sup>2 + (r * sin phi * sin theta)\<^sup>2 + (r * cos phi)\<^sup>2 = r\<^sup>2"
proof -
  have "(r * sin phi * cos theta)\<^sup>2 + (r * sin phi * sin theta)\<^sup>2 + (r * cos phi)\<^sup>2
      = r\<^sup>2 * ((sin phi)\<^sup>2 * ((cos theta)\<^sup>2 + (sin theta)\<^sup>2) + (cos phi)\<^sup>2)"
    by (rule sphere_norm_ring)
  also have "\<dots> = r\<^sup>2" by simp
  finally show ?thesis .
qed

lemma spherePoint_bound:
  assumes "unit_rng g" "0 \<le> radius"
  shows "sqrt ((p_x (fst (spherePoint radius yOffset baseColor g)))\<^sup>2
             + (p_y (fst (spherePoint radius yOffset baseColor g)) - yOffset)\<^sup>2
             + (p_z (fst (spherePoint radius yOffset baseColor g)))\<^sup>2) \<le> radius
         \<and> unit_rng (snd (spherePoint radius yOffset baseColor g))"
proof -
  let ?u = "g (Suc (Suc 0))"
  have u: "0 \<le> ?u" "?u < 1" using assms(1) by (simp_all add: unit_rng_def)
  have r0: "0 \<le> root 3 ?u" using u by simp
  have "root 3 ?u \<le> root 3 1" using u by (intro real_root_le_mono) simp_all
  then have r1: "root 3 ?u \<le> 1" by simp
  have rr: "0 \<le> root 3 ?u * radius" "root 3 ?u * radius \<le> radius"
    using r0 r1 assms(2) by (simp_all add: mult_left_le_one_le)
  have tail: "unit_rng (\<lambda>n. g (Suc (Suc (Suc n))))" using assms(1) by (simp add: unit_rng_def)
  have "sqrt ((p_x (fst (spherePoint radius yOffset baseColor g)))\<^sup>2
             + (p_y (fst (spherePoint radius yOffset baseColor g)) - yOffset)\<^sup>2
             + (p_z (fst (spherePoint radius yOffset baseColor g)))\<^sup>2) = \<bar>root 3 ?u * radius\<bar>"
    by (simp add: spherePoint_def split_def Let_def Math_random_def sphere_norm)
  moreover have "unit_rng (snd (spherePoint radius yOffset baseColor g))"
    using mixColor_unit [OF tail] by (simp add: spherePoint_def split_def Let_def Math_random_def)
  ultimately show ?thesis using rr by simp
qed

lemma sampleRng_unit: "unit_rng sampleRng"
  by (simp add: unit_rng_def sampleRng_def)

lemma root3_eighth: "root 3 (1 / 8) = 1 / 2"
proof -
  have "root 3 ((1 / 2) ^ 3) = (1 / 2 :: real)" by (rule real_root_power_cancel) simp_all
  then show ?thesis by (simp add: power3_eq_cube)
qed

lemma sample_spherePoint:
  "fst (spherePoint 1 2 (1, 1, 1) sampleRng) = \<lparr>p_x = 0, p_y = 5 / 2, p_z = 0, p_color = Some (1, 1, 1)\<rparr>"
  by (simp add: spherePoint_def mixColor_def split_def Let_def Math_random_def sampleRng_def
      root3_eighth)

text \<open>
  Claim C9, as stated, fails for the sphere helper: with radius 1 and \<open>yOffset\<close> 2 the
  draws 1/4, 1/2, 1/8 give the point \<open>(0, 5/2, 0)\<close>, of norm 5/2.
\<close>

theorem C9_sphere_offset_counterexample:
  "unit_rng sampleRng
   \<and> fst (generateSpherePoints 1 1 2 (1, 1, 1) sampleRng)
       = [\<lparr>p_x = 0, p_y = 5 / 2, p_z = 0, p_color = Some (1, 1, 1)\<rparr>]
   \<and> sqrt (0\<^sup>2 + (5 / 2)\<^sup>2 + 0\<^sup>2) = 5 / 2
   \<and> \<not> (\<forall>p \<in> set (fst (generateSpherePoints 1 1 2 (1, 1, 1) sampleRng)).
          sqrt ((p_x p)\<^sup>2 + (p_y p)\<^sup>2 + (p_z p)\<^sup>2) \<le> 1)"
proof -
  have l: "fst (generateSpherePoints 1 1 2 (1, 1, 1) sampleRng)
       = [\<lparr>p_x = 0, p_y = 5 / 2, p_z = 0, p_color = Some (1, 1, 1)\<rparr>]"
    by (simp add: generateSpherePoints_def for_loop_step for_loop_stop push1_def split_def
        sample_spherePoint)
  have n: "sqrt (0\<^sup>2 + (5 / 2)\<^sup>2 + 0\<^sup>2) = (5 / 2 :: real)"
    by (simp add: real_sqrt_abs)
  show ?thesis unfolding l using n sampleRng_unit by simp
qed

text \<open>
  Claim C9, amended. With draws in \<open>[0, 1)\<close> and a radius that is not negative, every
  point of \<open>generateSpherePoints(count, radius, yOffset, baseColor)\<close> lies within
  \<open>radius\<close> of the centre \<open>(0, yOffset, 0)\<close>, so its norm is at most \<open>radius\<close> when
  \<open>yOffset\<close> is 0, the default; and every point of \<open>generateTreePoints\<close> has its
  height \<open>y\<close> in \<open>[-1.5, 1.5]\<close>.
\<close>

theorem C9_bounds:
  assumes "unit_rng g" "0 \<le> radius"
  shows "(\<forall>p \<in> set (fst (generateSpherePoints count radius yOffset baseColor g)).
            sqrt ((p_x p)\<^sup>2 + (p_y p - yOffset)\<^sup>2 + (p_z p)\<^sup>2) \<le> radius)
       \<and> (\<forall>p \<in> set (fst (generateSpherePoints count radius 0 baseColor g)).
            sqrt ((p_x p)\<^sup>2 + (p_y p)\<^sup>2 + (p_z p)\<^sup>2) \<le> radius)
       \<and> (\<forall>p \<in> set (fst (generateTreePoints count g)). - 1.5 \<le> p_y p \<and> p_y p \<le> 1.5)"
proof -
  have s: "\<And>yOffset. \<forall>p \<in> set (fst (generateSpherePoints count radius yOffset baseColor g)).
            sqrt ((p_x p)\<^sup>2 + (p_y p - yOffset)\<^sup>2 + (p_z p)\<^sup>2) \<le> radius"
    unfolding generateSpherePoints_def
    by (rule push1_loop_all [OF _ assms(1)]) (rule spherePoint_bound [OF _ assms(2)])
  have t: "\<forall>p \<in> set (fst (generateTreePoints count g)). - 1.5 \<le> p_y p \<and> p_y p \<le> 1.5"
    unfolding generateTreePoints_def
    by (rule push1_loop_all [OF _ assms(1)]) (rule treePoint_height)
  show ?thesis using s [of yOffset] s [of 0] t by simp
qed


theorem C9_bounds_witness:
  "unit_rng sampleRng \<and> (0 :: real) \<le> 1
   \<and> sqrt ((p_x (hd (fst (generateSpherePoints 1 1 2 (1, 1, 1) sampleRng))))\<^sup>2
        + (p_y (hd (fst (generateSpherePoints 1 1 2 (1, 1, 1) sampleRng))) - 2)\<^sup>2
        + (p_z (hd (fst (generateSpherePoints 1 1 2 (1, 1, 1) sampleRng))))\<^sup>2) \<le> 1
   \<and> fst (generateSpherePoints 1 1 2 (1, 1, 1) sampleRng) \<noteq> []
   \<and> fst (generateTreePoints 1 sampleRng) \<noteq> []
   \<and> - 1.5 \<le> p_y (hd (fst (generateTreePoints 1 sampleRng)))
   \<and> p_y (hd (fst (generateTreePoints 1 sampleRng))) \<le> 1.5"
proof -
  have ne: "fst (generateSpherePoints 1 1 2 (1, 1, 1) sampleRng) \<noteq> []"
    "fst (generateTreePoints 1 sampleRng) \<noteq> []"
    by (simp_all add: generateSpherePoints_def generateTreePoints_def for_loop_step push1_def split_def)
  have r: "(0 :: real) \<le> 1" by simp
  show ?thesis
    using C9_bounds [OF sampleRng_unit r, of 1 2 "(1, 1, 1)"] ne sampleRng_unit
    by (simp add: hd_in_set del: One_nat_def)
qed

section \<open>The stripes of the candy cane\<close>

lemma arctan_le_self_nonneg:
  assumes "0 \<le> x"
  shows "arctan x \<le> x"
proof -
  have "(\<lambda>t. t - arctan t) 0 \<le> (\<lambda>t. t - arctan t) x"
  proof (rule DERIV_nonneg_imp_nondecreasing [OF assms])
    fix y :: real
    have "((\<lambda>t. t - arctan t) has_real_derivative (1 - inverse (1 + y\<^sup>2))) (at y)"
      by (auto intro!: derivative_eq_intros)
    moreover have "inverse (1 + y\<^sup>2) \<le> 1"
      by (simp add: inverse_le_1_iff)
    ultimately show "\<exists>d. ((\<lambda>t. t - arctan t) has_real_derivative d) (at y) \<and> 0 \<le> d"
      by (intro exI [of _ "1 - inverse (1 + y\<^sup>2)"]) simp
  qed
  then show ?thesis by simp
qed

lemma pi_le_16_5: "pi \<le> 16 / 5"
proof -
  have "arctan (1 / 5) \<le> 1 / 5" by (rule arctan_le_self_nonneg) simp
  moreover have "0 \<le> arctan (1 / 239)" by simp
  ultimately have "pi / 4 \<le> 4 / 5" using machin by linarith
  then show ?thesis by simp
qed

lemma pi_ge_3: "3 \<le> pi"
proof -
  have "sin (pi / 6) \<le> pi / 6" by (rule sin_x_le_x) simp
  then show ?thesis by (simp add: sin_30)
qed

lemma sin_neg_third_turn:
  assumes "3 * pi < x" "x < 4 * pi"
  shows "sin x < 0"
proof -
  have "sin (x - 2 * pi) < 0" using assms by (intro sin_lt_zero) simp_all
  moreover have "sin (x - 2 * pi) = sin x" using sin_periodic [of "x - 2 * pi"] by simp
  ultimately show ?thesis by simp
qed

lemma atan2_sin_cos:
  fixes theta r :: real
  assumes r: "0 < r"
  shows "sin (atan2 (sin theta * r) (cos theta * r)) = sin theta
       \<and> cos (atan2 (sin theta * r) (cos theta * r)) = cos theta"
proof (cases "cos theta = 0")
  case True
  have "(sin theta)\<^sup>2 = 1" using sin_cos_squared_add [of theta] True by simp
  then have "sin theta = 1 \<or> sin theta = - 1" by (simp add: power2_eq_1_iff)
  then show ?thesis using True r by (auto simp: atan2_def)
next
  case False
  let ?x = "sin theta * r / (cos theta * r)"
  have x: "?x = tan theta" using r by (simp add: tan_def)
  have "1 + (tan theta)\<^sup>2 = (inverse (cos theta))\<^sup>2" using False by (rule tan_sec)
  then have s: "sqrt (1 + (tan theta)\<^sup>2) = inverse \<bar>cos theta\<bar>"
    by (simp add: real_sqrt_abs)
  have c: "cos (arctan (tan theta)) = \<bar>cos theta\<bar>"
    by (simp add: cos_arctan s inverse_eq_divide)
  have sn: "sin (arctan (tan theta)) = tan theta * \<bar>cos theta\<bar>"
    by (simp add: sin_arctan s inverse_eq_divide)
  show ?thesis
  proof (cases "0 < cos theta")
    case True
    then have "atan2 (sin theta * r) (cos theta * r) = arctan (tan theta)"
      using r x by (simp add: atan2_def)
    then show ?thesis using True c sn by (simp add: tan_def)
  next
    case neg: False
    then have lt: "cos theta < 0" using False by simp
    then have n: "\<not> 0 < cos theta * r" "cos theta * r < 0"
      using r by (simp_all add: mult_less_0_iff zero_less_mult_iff)
    have "atan2 (sin theta * r) (cos theta * r) = arctan (tan theta) + pi
        \<or> atan2 (sin theta * r) (cos theta * r) = arctan (tan theta) - pi"
      using n x by (simp add: atan2_def)
    then show ?thesis using lt c sn by (auto simp: tan_def sin_diff cos_diff)
  qed
qed

lemma sin_add_atan2:
  fixes a theta r :: real
  assumes "0 < r"
  shows "sin (a + atan2 (sin theta * r) (cos theta * r)) = sin (a + theta)"
  using atan2_sin_cos [OF assms, of theta] by (simp add: sin_add)


lemma candyCane_straight:
  "t < 0.7 \<Longrightarrow> snd (candyCane t theta) = (0 < sin (((t / 0.7) * 2.5 - 1.5) * 10 + theta))"
  using sin_add_atan2 [of "0.25" "((t / 0.7) * 2.5 - 1.5) * 10" theta]
  by (simp add: candyCane_def Let_def)

lemma candyCane_curved:
  "\<not> t < 0.7 \<Longrightarrow> snd (candyCane t theta) = (0 < sin (((t - 0.7) / 0.3) * pi * 10 + theta))"
  using sin_add_atan2 [of "0.25" "((t - 0.7) / 0.3) * pi * 10" theta]
  by (simp add: candyCane_def Let_def)

lemma candyCane_below_joint:
  assumes "69 / 100 \<le> t" "t < 7 / 10"
  shows "\<not> snd (candyCane t (pi / 2))"
proof -
  let ?p = "((t / 0.7) * 2.5 - 1.5) * 10 + pi / 2"
  have lo: "675 / 70 \<le> ((t / 0.7) * 2.5 - 1.5) * 10" using assms(1) by (simp add: field_simps)
  have hi: "((t / 0.7) * 2.5 - 1.5) * 10 < 10" using assms(2) by (simp add: field_simps)
  have "3 * pi < ?p" using lo pi_le_16_5 by linarith
  moreover have "?p < 4 * pi" using hi pi_ge_3 by linarith
  ultimately have "sin ?p < 0" by (rule sin_neg_third_turn)
  then show ?thesis using assms(2) by (simp add: candyCane_straight)
qed

text \<open>
  Claim C6, as stated, fails. At the cross-section angle \<open>pi / 2\<close> the first point of the
  curved part (\<open>t = 0.7\<close>) is on a stripe, while every point of the straight part with
  \<open>0.69 \<le> t < 0.7\<close>, however close to the joint, is not.
\<close>

theorem C6_stripe_jump_counterexample:
  "snd (candyCane (7 / 10) (pi / 2))
   \<and> \<not> snd (candyCane (699 / 1000) (pi / 2))
   \<and> \<not> snd (candyCane (6999999 / 10000000) (pi / 2))
   \<and> \<not> (\<exists>t. 69 / 100 \<le> t \<and> t < 7 / 10 \<and> snd (candyCane t (pi / 2)))"
proof -
  have "snd (candyCane (7 / 10) (pi / 2))" by (simp add: candyCane_curved)
  moreover have "\<not> snd (candyCane (699 / 1000) (pi / 2))"
    by (rule candyCane_below_joint) simp_all
  moreover have "\<not> snd (candyCane (6999999 / 10000000) (pi / 2))"
    by (rule candyCane_below_joint) simp_all
  ultimately show ?thesis using candyCane_below_joint by blast
qed

text \<open>
  Claim C6, amended. Both parts compute the stripe as \<open>sin(axial * 10 + theta) > 0\<close>, for
  every cross-section angle \<open>theta\<close>: on the straight part with the height
  \<open>y = 1 - (0.7 - t) * 25 / 7\<close> as axial coordinate, on the curved part with the bend
  angle \<open>(t - 0.7) / 0.3 * pi\<close>. The two coordinates do not meet at the joint: the
  straight part ends with the phase \<open>10 + theta\<close>, the curved part starts with the phase
  \<open>theta\<close> (the stripe at \<open>t = 0.7\<close> is \<open>sin theta > 0\<close>). The formula is the same on
  both sides; the stripe value is not carried across the joint.
\<close>

theorem C6_stripe_formula:
  "(if t < 0.7
    then snd (candyCane t theta) = (0 < sin (((t / 0.7) * 2.5 - 1.5) * 10 + theta))
       \<and> ((t / 0.7) * 2.5 - 1.5) * 10 = 10 - (0.7 - t) * (250 / 7)
    else snd (candyCane t theta) = (0 < sin (((t - 0.7) / 0.3) * pi * 10 + theta)))
   \<and> snd (candyCane 0.7 theta) = (0 < sin theta)"
proof -
  have "((t / 0.7) * 2.5 - 1.5) * 10 = 10 - (0.7 - t) * (250 / 7)" by (simp add: field_simps)
  moreover have "snd (candyCane 0.7 theta) = (0 < sin theta)" by (simp add: candyCane_curved)
  ultimately show ?thesis using candyCane_straight [of t theta] candyCane_curved [of t theta]
    by simp
qed

theorem C6_stripe_formula_witness:
  "snd (candyCane 0.7 (pi / 2)) \<and> \<not> snd (candyCane 0.85 0) \<and> \<not> snd (candyCane 0.35 2.5)"
  using C6_stripe_formula [of "0.7" "pi / 2"] C6_stripe_formula [of "0.35" "2.5"]
    C6_stripe_formula [of "0.85" 0]
  by simp

section \<open>Stability of the form regime\<close>

text \<open>
  With one particle and a mode that is not scatter, the frame callback applies
  \<open>formParticle\<close> to that particle and leaves its target alone; \<open>formTicks\<close> iterates
  exactly this step, with the elapsed time and the frame time of each frame.
\<close>

lemma simulationLoop_single:
  "simulationLoop 0 (Suc 0) noiseAmp scatter time delta st = particleStep noiseAmp scatter time delta 0 st"
  by (simp add: simulationLoop.simps [of 0] simulationLoop.simps [of "Suc 0"])

lemma useFrameWith_single_form:
  assumes "pointsRef st = Some pr" "positions st = [x, y, z]" "velocities st = [vx, vy, vz]"
    "targetPositions st = [tx, ty, tz]" "\<not> isScatter mode motionIntensity"
  shows "(triple (positions (useFrameWith noiseAmp mode motionIntensity 1 time delta st)) 0,
          triple (velocities (useFrameWith noiseAmp mode motionIntensity 1 time delta st)) 0)
           = formParticle noiseAmp time delta (tx, ty, tz) (x, y, z) (vx, vy, vz)
       \<and> targetPositions (useFrameWith noiseAmp mode motionIntensity 1 time delta st) = [tx, ty, tz]"
proof -
  obtain p v where pv: "formParticle noiseAmp time delta (tx, ty, tz) (x, y, z) (vx, vy, vz) = (p, v)"
    by (cases "formParticle noiseAmp time delta (tx, ty, tz) (x, y, z) (vx, vy, vz)")
  obtain p0 p1 p2 where p: "p = (p0, p1, p2)" by (cases p) auto
  obtain v0 v1 v2 where v: "v = (v0, v1, v2)" by (cases v) auto
  show ?thesis
    using assms
    by (simp add: useFrameWith_def Let_def simulationLoop_single particleStep_def triple_def
        setTriple_def pv p v)
qed

text \<open>
  Without shimmer the three axes are decoupled, and started at rest the particle moves
  on the line through its starting point and the target: position and velocity after
  \<open>n\<close> frames are given by \<open>formCoeffs\<close>, whatever the frame times are.
\<close>

lemma formParticle_still:
  "formParticle 0 time delta (tx, ty, tz) (x, y, z) (vx, vy, vz) =
     ((x + (vx + (tx - x) * 4 * delta) * 0.85,
       y + (vy + (ty - y) * 4 * delta) * 0.85,
       z + (vz + (tz - z) * 4 * delta) * 0.85),
      ((vx + (tx - x) * 4 * delta) * 0.85,
       (vy + (ty - y) * 4 * delta) * 0.85,
       (vz + (tz - z) * 4 * delta) * 0.85))"
  by (simp add: formParticle_def Let_def)

lemma form_axis:
  fixes a b d tx x :: real
  shows "(b * (x - tx) + (tx - (tx + a * (x - tx))) * 4 * d) * 0.85
           = (b - a * 4 * d) * 0.85 * (x - tx)"
    and "tx + a * (x - tx) + (b - a * 4 * d) * 0.85 * (x - tx)
           = tx + (a + (b - a * 4 * d) * 0.85) * (x - tx)"
  by algebra+

lemma formTicks_coeffs:
  "formTicks n 0 clock deltas (tx, ty, tz) ((x, y, z), (0, 0, 0)) =
     ((tx + fst (formCoeffs n deltas) * (x - tx),
       ty + fst (formCoeffs n deltas) * (y - ty),
       tz + fst (formCoeffs n deltas) * (z - tz)),
      (snd (formCoeffs n deltas) * (x - tx),
       snd (formCoeffs n deltas) * (y - ty),
       snd (formCoeffs n deltas) * (z - tz)))"
proof (induction n)
  case 0
  show ?case by simp
next
  case (Suc n)
  obtain a b where c: "formCoeffs n deltas = (a, b)" by (cases "formCoeffs n deltas")
  show ?case
    by (simp only: formTicks.simps Suc prod.case formParticle_still formCoeffs.simps c
        fst_conv snd_conv form_axis)
qed

lemma dist3_scaled:
  "dist3 (tx + a * (x - tx), ty + a * (y - ty), tz + a * (z - tz)) (tx, ty, tz)
     = \<bar>a\<bar> * dist3 (x, y, z) (tx, ty, tz)"
proof -
  have "(a * (x - tx))\<^sup>2 + (a * (y - ty))\<^sup>2 + (a * (z - tz))\<^sup>2
      = a\<^sup>2 * ((x - tx)\<^sup>2 + (y - ty)\<^sup>2 + (z - tz)\<^sup>2)"
    by (simp add: power_mult_distrib distrib_left)
  then show ?thesis by (simp add: dist3_def real_sqrt_mult)
qed

lemma onStartSide_scaled:
  "onStartSide (tx, ty, tz) (x, y, z) (tx + a * (x - tx), ty + a * (y - ty), tz + a * (z - tz))
     \<longleftrightarrow> 0 \<le> a * (dist3 (x, y, z) (tx, ty, tz))\<^sup>2"
proof -
  have "a * (x - tx) * (x - tx) + a * (y - ty) * (y - ty) + a * (z - tz) * (z - tz)
      = a * ((x - tx)\<^sup>2 + (y - ty)\<^sup>2 + (z - tz)\<^sup>2)"
    by (simp add: power2_eq_square algebra_simps)
  then show ?thesis by (simp add: onStartSide_def dist3_def)
qed

lemma formCoeffs_velocity:
  "(\<forall>k < n. 0 \<le> deltas k) \<Longrightarrow> (\<forall>k < n. 0 \<le> fst (formCoeffs k deltas)) \<Longrightarrow>
   snd (formCoeffs n deltas) \<le> 0"
proof (induction n)
  case 0
  show ?case by simp
next
  case (Suc n)
  obtain a b where c: "formCoeffs n deltas = (a, b)" by (cases "formCoeffs n deltas")
  have b: "b \<le> 0" using Suc c by simp
  have a: "0 \<le> a" using Suc.prems(2) c by (metis fst_conv lessI)
  have d: "0 \<le> deltas n" using Suc.prems(1) by simp
  have "0 \<le> a * 4 * deltas n" using a d by simp
  then have "(b - a * 4 * deltas n) * 0.85 \<le> 0" using b by (simp add: mult_le_0_iff)
  then show ?case by (simp add: c)
qed

text \<open>Eight and nine frames of 16 ms, from rest at distance 1 of the target.\<close>

lemma ticks8:
  "formTicks 8 0 (\<lambda>k. real k * 0.016) (\<lambda>k. 0.016) (0, 0, 0) ((1, 0, 0), (0, 0, 0))
     = ((- (4116178658984094227351093 / 190734863281250000000000000), 0, 0),
        (- (24936176872387468658508593 / 190734863281250000000000000), 0, 0))"
  by (simp add: eval_nat_numeral formParticle_still)

lemma ticks9:
  "formTicks 9 0 (\<lambda>k. real k * 0.016) (\<lambda>k. 0.016) (0, 0, 0) ((1, 0, 0), (0, 0, 0))
     = ((- (62720022203661769652788743977 / 476837158203125000000000000000), 0, 0),
        (- (52429575556201534084411011477 / 476837158203125000000000000000), 0, 0))"
  by (simp add: eval_nat_numeral formParticle_still)

lemma all_le_Suc: "(\<forall>k \<le> Suc n. P k) \<longleftrightarrow> (\<forall>k \<le> n. P k) \<and> P (Suc n)"
  by (auto simp: le_Suc_eq)

text \<open>
  Claim C3, as stated, fails. With a frame time of 0.016 in every frame, the target at
  the origin and a particle at rest at \<open>(1, 0, 0)\<close>, without shimmer, the distance to the
  target is about 0.0216 after eight ticks and about 0.1315 after nine: after eight
  ticks the particle has passed the target, and it keeps moving away from it.
\<close>

theorem C3_overshoot_counterexample:
  "dist3 (fst (formTicks 8 0 (\<lambda>k. real k * 0.016) (\<lambda>k. 0.016) (0, 0, 0) ((1, 0, 0), (0, 0, 0)))) (0, 0, 0)
     = 4116178658984094227351093 / 190734863281250000000000000
   \<and> dist3 (fst (formTicks 9 0 (\<lambda>k. real k * 0.016) (\<lambda>k. 0.016) (0, 0, 0) ((1, 0, 0), (0, 0, 0)))) (0, 0, 0)
     = 62720022203661769652788743977 / 476837158203125000000000000000
   \<and> dist3 (fst (formTicks 8 0 (\<lambda>k. real k * 0.016) (\<lambda>k. 0.016) (0, 0, 0) ((1, 0, 0), (0, 0, 0)))) (0, 0, 0)
     < dist3 (fst (formTicks 9 0 (\<lambda>k. real k * 0.016) (\<lambda>k. 0.016) (0, 0, 0) ((1, 0, 0), (0, 0, 0)))) (0, 0, 0)
   \<and> \<not> onStartSide (0, 0, 0) (1, 0, 0)
         (fst (formTicks 8 0 (\<lambda>k. real k * 0.016) (\<lambda>k. 0.016) (0, 0, 0) ((1, 0, 0), (0, 0, 0))))"
  unfolding ticks8 ticks9 by (simp add: dist3_def onStartSide_def)

text \<open>
  Claim C3, amended. For a single particle in the form regime with a static target, no
  shimmer and zero initial velocity, and frame times that are not negative (they may
  differ from frame to frame), the distance to the target does not increase from one
  tick to the next as long as the particle has not passed the target, that is, as long
  as its offset from the target has no component against the initial offset, up to
  and including the end of that tick. (Once it has passed the target the distance can
  increase: the spring is underdamped and the particle overshoots.)
\<close>

theorem C3_monotone_until_passed:
  assumes "\<forall>k \<le> n. 0 \<le> deltas k"
    and "\<forall>k \<le> Suc n. onStartSide target pos
           (fst (formTicks k 0 clock deltas target (pos, (0, 0, 0))))"
  shows "dist3 (fst (formTicks (Suc n) 0 clock deltas target (pos, (0, 0, 0)))) target
           \<le> dist3 (fst (formTicks n 0 clock deltas target (pos, (0, 0, 0)))) target"
proof -
  obtain tx ty tz where t: "target = (tx, ty, tz)" by (cases target) auto
  obtain x y z where p: "pos = (x, y, z)" by (cases pos) auto
  let ?r = "dist3 (x, y, z) (tx, ty, tz)"
  let ?a = "\<lambda>k. fst (formCoeffs k deltas)"
  have dist: "\<And>k. dist3 (fst (formTicks k 0 clock deltas target (pos, (0, 0, 0)))) target
                 = \<bar>?a k\<bar> * ?r"
    unfolding t p by (simp add: formTicks_coeffs dist3_scaled)
  have side: "\<And>k. k \<le> Suc n \<Longrightarrow> 0 \<le> ?a k * ?r\<^sup>2"
    using assms(2) unfolding t p by (simp add: formTicks_coeffs onStartSide_scaled)
  show ?thesis
  proof (cases "?r = 0")
    case True
    then show ?thesis unfolding dist by simp
  next
    case False
    then have "0 < ?r\<^sup>2" by simp
    then have pos_a: "\<And>k. k \<le> Suc n \<Longrightarrow> 0 \<le> ?a k"
      using side by (simp add: zero_le_mult_iff)
    have "snd (formCoeffs (Suc n) deltas) \<le> 0"
      using assms(1) pos_a by (intro formCoeffs_velocity) auto
    moreover have "?a (Suc n) = ?a n + snd (formCoeffs (Suc n) deltas)"
      by (cases "formCoeffs n deltas") simp
    ultimately have le: "?a (Suc n) \<le> ?a n" by linarith
    have an1: "0 \<le> ?a (Suc n)" by (rule pos_a) simp
    have an: "0 \<le> ?a n" by (rule pos_a) simp
    have r0: "0 \<le> ?r" by (simp add: dist3_def)
    have "\<bar>?a (Suc n)\<bar> * ?r \<le> \<bar>?a n\<bar> * ?r"
      using le an1 an r0 by (intro mult_right_mono) linarith+
    then show ?thesis unfolding dist .
  qed
qed

theorem C3_monotone_until_passed_witness:
  "(\<forall>k. (0 :: real) \<le> 0.016 + real k / 1000)
   \<and> onStartSide (0, 0, 0) (1, 2, 2)
        (fst (formTicks (Suc 6) 0 (\<lambda>k. real k * 0.018) (\<lambda>k. 0.016 + real k / 1000)
               (0, 0, 0) ((1, 2, 2), (0, 0, 0))))
   \<and> dist3 (fst (formTicks (Suc 6) 0 (\<lambda>k. real k * 0.018) (\<lambda>k. 0.016 + real k / 1000)
               (0, 0, 0) ((1, 2, 2), (0, 0, 0)))) (0, 0, 0)
       \<le> dist3 (fst (formTicks 6 0 (\<lambda>k. real k * 0.018) (\<lambda>k. 0.016 + real k / 1000)
               (0, 0, 0) ((1, 2, 2), (0, 0, 0)))) (0, 0, 0)"
proof -
  let ?dl = "\<lambda>k :: nat. 0.016 + real k / 1000"
  let ?ck = "\<lambda>k :: nat. real k * 0.018"
  have n: "\<forall>k. (0 :: real) \<le> ?dl k" by simp
  then have d: "\<forall>k \<le> 6. 0 \<le> ?dl k" by blast
  have c: "\<forall>k \<le> Suc 6. 0 \<le> fst (formCoeffs k ?dl)"
    by (simp add: eval_nat_numeral all_le_Suc)
  have s: "\<forall>k \<le> Suc 6. onStartSide (0, 0, 0) (1, 2, 2)
             (fst (formTicks k 0 ?ck ?dl (0, 0, 0) ((1, 2, 2), (0, 0, 0))))"
  proof (intro allI impI)
    fix k :: nat
    assume "k \<le> Suc 6"
    then have "0 \<le> fst (formCoeffs k ?dl)" using c by blast
    then show "onStartSide (0, 0, 0) (1, 2, 2)
             (fst (formTicks k 0 ?ck ?dl (0, 0, 0) ((1, 2, 2), (0, 0, 0))))"
      using onStartSide_scaled [of 0 0 0 1 2 2 "fst (formCoeffs k ?dl)"]
      by (simp add: formTicks_coeffs del: formCoeffs.simps)
  qed
  have side: "onStartSide (0, 0, 0) (1, 2, 2)
        (fst (formTicks (Suc 6) 0 ?ck ?dl (0, 0, 0) ((1, 2, 2), (0, 0, 0))))"
    using s by blast
  have "dist3 (fst (formTicks (Suc 6) 0 ?ck ?dl (0, 0, 0) ((1, 2, 2), (0, 0, 0)))) (0, 0, 0)
       \<le> dist3 (fst (formTicks 6 0 ?ck ?dl (0, 0, 0) ((1, 2, 2), (0, 0, 0)))) (0, 0, 0)"
    by (rule C3_monotone_until_passed [OF d s])
  then show ?thesis using n side by blast
qed

subsection \<open>Frames of equal length\<close>

text \<open>
  When every frame has the same length \<open>delta\<close>, a tick multiplies the quadratic form
  \<open>energy3 delta\<close> by 0.85. For \<open>delta\<close> between 0.01 and 0.2 the form bounds the squared
  distance from above, so the overshoot shrinks geometrically. This needs the frames
  to be of equal length: the form depends on \<open>delta\<close>.
\<close>

lemma energy1_step:
  "energy1 delta ((x + (vx + (tx - x) * 4 * delta) * 0.85) - tx) ((vx + (tx - x) * 4 * delta) * 0.85)
     = 0.85 * energy1 delta (x - tx) vx"
  unfolding energy1_def by algebra

lemma energy3_step:
  "energy3 delta target (formParticle 0 time delta target pos vel)
     = 0.85 * energy3 delta target (pos, vel)"
proof -
  obtain tx ty tz where t: "target = (tx, ty, tz)" by (cases target) auto
  obtain x y z where p: "pos = (x, y, z)" by (cases pos) auto
  obtain vx vy vz where v: "vel = (vx, vy, vz)" by (cases vel) auto
  show ?thesis
    unfolding t p v formParticle_still energy3_def prod.case energy1_step
    by (simp add: distrib_left)
qed

lemma energy3_ticks:
  "energy3 delta target (formTicks n 0 clock (\<lambda>k. delta) target pv)
     = 0.85 ^ n * energy3 delta target pv"
proof (induction n)
  case 0
  show ?case by simp
next
  case (Suc n)
  obtain pos vel where pv: "formTicks n 0 clock (\<lambda>k. delta) target pv = (pos, vel)"
    by (cases "formTicks n 0 clock (\<lambda>k. delta) target pv")
  show ?case using Suc by (simp add: pv energy3_step)
qed

lemma energy1_lower:
  assumes "0.01 \<le> delta" "delta \<le> 0.2"
  shows "0.85 * (3.4 * delta) * e\<^sup>2 \<le> energy1 delta e v"
proof -
  let ?s = "3.4 * delta"
  have "(delta - 0.01) * (delta - 0.2) \<le> 0"
    using assms by (intro mult_nonneg_nonpos) simp_all
  moreover have "(delta - 0.01) * (delta - 0.2) = delta * delta - 0.21 * delta + 0.002"
    by (simp add: field_simps)
  ultimately have d2: "delta * delta \<le> 0.21 * delta - 0.002" by linarith
  have c: "0 \<le> 0.51 * ?s - (?s - 0.15)\<^sup>2"
  proof -
    have "0.51 * ?s - (?s - 0.15)\<^sup>2
        = (0.3264 * delta + 0.00062) + 11.56 * (0.21 * delta - 0.002 - delta * delta)"
      by (simp add: power2_eq_square field_simps)
    moreover have "0 \<le> 11.56 * (0.21 * delta - 0.002 - delta * delta)" using d2 by simp
    moreover have "0 \<le> 0.3264 * delta + 0.00062" using assms(1) by simp
    ultimately show ?thesis by simp
  qed
  have "energy1 delta e v - 0.85 * ?s * e\<^sup>2
      = 0.85 * (v - (?s - 0.15) / 1.7 * e)\<^sup>2 + (0.51 * ?s - (?s - 0.15)\<^sup>2) / 3.4 * e\<^sup>2"
    unfolding energy1_def by (simp add: power2_eq_square field_simps)
  moreover have "0 \<le> 0.85 * (v - (?s - 0.15) / 1.7 * e)\<^sup>2" by simp
  moreover have "0 \<le> (0.51 * ?s - (?s - 0.15)\<^sup>2) / 3.4 * e\<^sup>2"
    using c by (intro mult_nonneg_nonneg divide_nonneg_nonneg) simp_all
  ultimately show ?thesis by linarith
qed

lemma dist3_sq:
  "(dist3 (x, y, z) (tx, ty, tz))\<^sup>2 = (x - tx)\<^sup>2 + (y - ty)\<^sup>2 + (z - tz)\<^sup>2"
  by (simp add: dist3_def)

lemma energy3_lower:
  assumes "0.01 \<le> delta" "delta \<le> 0.2"
  shows "0.85 * (3.4 * delta) * (dist3 pos target)\<^sup>2 \<le> energy3 delta target (pos, vel)"
proof -
  obtain tx ty tz where t: "target = (tx, ty, tz)" by (cases target) auto
  obtain x y z where p: "pos = (x, y, z)" by (cases pos) auto
  obtain vx vy vz where v: "vel = (vx, vy, vz)" by (cases vel) auto
  show ?thesis
    unfolding t p v dist3_sq energy3_def prod.case
    using energy1_lower [OF assms, of "x - tx" vx] energy1_lower [OF assms, of "y - ty" vy]
      energy1_lower [OF assms, of "z - tz" vz]
    by (simp add: distrib_left)
qed

lemma energy3_rest:
  "energy3 delta target (pos, (0, 0, 0)) = 3.4 * delta * (dist3 pos target)\<^sup>2"
proof -
  obtain tx ty tz where t: "target = (tx, ty, tz)" by (cases target) auto
  obtain x y z where p: "pos = (x, y, z)" by (cases pos) auto
  show ?thesis
    unfolding t p dist3_sq energy3_def prod.case energy1_def by (simp add: distrib_left)
qed

lemma dist3_nonneg: "0 \<le> dist3 pos target"
  by (cases pos; cases target) (simp add: dist3_def)

lemma form_ticks_constant_delta:
  assumes "0.01 \<le> delta" "delta \<le> 0.2"
  shows "dist3 (fst (formTicks (Suc n) 0 clock (\<lambda>k. delta) target (pos, (0, 0, 0)))) target
           \<le> sqrt (0.85 ^ n) * dist3 pos target
       \<and> dist3 (fst (formTicks (Suc n) 0 clock (\<lambda>k. delta) target (pos, (0, 0, 0)))) target
           \<le> dist3 pos target"
proof -
  let ?pv = "formTicks (Suc n) 0 clock (\<lambda>k. delta) target (pos, (0, 0, 0))"
  let ?now = "dist3 (fst ?pv) target"
  let ?start = "dist3 pos target"
  have s: "0 < 3.4 * delta" using assms(1) by simp
  have "0.85 * (3.4 * delta) * ?now\<^sup>2 \<le> energy3 delta target (fst ?pv, snd ?pv)"
    by (rule energy3_lower [OF assms])
  also have "\<dots> = 0.85 ^ Suc n * energy3 delta target (pos, (0, 0, 0))"
    by (simp only: prod.collapse energy3_ticks)
  also have "\<dots> = 0.85 * (3.4 * delta) * (0.85 ^ n * ?start\<^sup>2)"
    by (simp add: energy3_rest)
  finally have "?now\<^sup>2 \<le> 0.85 ^ n * ?start\<^sup>2" using s by simp
  then have "sqrt (?now\<^sup>2) \<le> sqrt (0.85 ^ n * ?start\<^sup>2)" by (rule real_sqrt_le_mono)
  then have 1: "?now \<le> sqrt (0.85 ^ n) * ?start"
    using dist3_nonneg [of "fst ?pv" target] dist3_nonneg [of pos target]
    by (simp add: real_sqrt_mult)
  have "(0.85 :: real) ^ n \<le> 1" by (rule power_le_one) simp_all
  then have "sqrt (0.85 ^ n) \<le> 1" by simp
  then have "sqrt (0.85 ^ n) * ?start \<le> 1 * ?start"
    using dist3_nonneg [of pos target] by (intro mult_right_mono) simp_all
  then show ?thesis using 1 by simp
qed

end
